theory Spec2Isabelle
  imports Main "HOL-Library.Word"
begin

section \<open>The key model of \<^verbatim>\<open>crypto/Key.ts\<close>\<close>

text \<open>
  The development embeds \<^verbatim>\<open>packages/matter.js/src/crypto/Key.ts\<close>: the DER helper
  functions, the five translators, the accessor layers that \<^verbatim>\<open>Key()\<close> installs on
  the object \<^verbatim>\<open>that\<close>, the factory itself and its three convenience variants.
  The object \<^verbatim>\<open>that\<close> is a record of its own data properties (the JWK fields); every
  accessor property the factory defines with \<^verbatim>\<open>Object.defineProperty\<close> is a pair of
  functions \<open>get_\<close>\<^emph>\<open>name\<close> and \<open>set_\<close>\<^emph>\<open>name\<close> on that record. A \<^verbatim>\<open>throw\<close> is a
  value \<open>Inl e\<close> of the result type \<open>error + 'a\<close>.
\<close>

subsection \<open>Bytes\<close>

type_synonym byte = "8 word"
type_synonym ByteArray = "byte list"

text \<open>\<^verbatim>\<open>input.slice(a, b)\<close> and \<^verbatim>\<open>input.slice(a)\<close> for indices that are not negative.\<close>

definition slice :: "ByteArray \<Rightarrow> nat \<Rightarrow> nat \<Rightarrow> ByteArray" where
  "slice input a b = take (b - a) (drop a input)"

definition slice_from :: "ByteArray \<Rightarrow> nat \<Rightarrow> ByteArray" where
  "slice_from input a = drop a input"

text \<open>
  Modelled from the spec: \<^verbatim>\<open>ByteArray.toHex\<close> is declared in \<^verbatim>\<open>util/ByteArray.ts\<close>,
  which is not among the sources. The spec writes the object identifiers the lookup
  table is keyed by as two lower-case hexadecimal digits per byte
  (\<^verbatim>\<open>0103840022\<close>), which is what this definition produces.
\<close>

definition hexDigit :: "nat \<Rightarrow> char" where
  "hexDigit n = ''0123456789abcdef'' ! n"

definition toHex :: "ByteArray \<Rightarrow> string" where
  "toHex bs = concat (map (\<lambda>b. [hexDigit (unat b div 16), hexDigit (unat b mod 16)]) bs)"

subsection \<open>Base64\<close>

text \<open>
  Modelled from the spec: \<^verbatim>\<open>Base64.encode\<close> and \<^verbatim>\<open>Base64.decode\<close> live in
  \<^verbatim>\<open>codec/Base64Codec.ts\<close>, which is not among the sources. The spec (4.C) asks for
  the URL-safe alphabet, no padding on encode and tolerant padding on decode. The
  encoder here is the one \<^verbatim>\<open>Base64.encode(value, true)\<close> names: three bytes become four
  characters of \<^verbatim>\<open>A-Z a-z 0-9 - _\<close>, a final group of one or two bytes becomes two or
  three characters, and nothing is appended. The decoder reads the characters of that
  alphabet and passes over every other character, the padding \<^verbatim>\<open>=\<close> among them.
\<close>

definition base64url_char :: "nat \<Rightarrow> char" where
  "base64url_char n =
     (if n < 26 then char_of (65 + n)
      else if n < 52 then char_of (71 + n)
      else if n < 62 then char_of (n - 4)
      else if n = 62 then CHR ''-''
      else CHR ''_'')"

definition base64url_value :: "char \<Rightarrow> nat option" where
  "base64url_value c =
     (let n = (of_char c :: nat) in
      if 65 \<le> n \<and> n \<le> 90 then Some (n - 65)
      else if 97 \<le> n \<and> n \<le> 122 then Some (n - 71)
      else if 48 \<le> n \<and> n \<le> 57 then Some (n + 4)
      else if n = 45 then Some 62
      else if n = 95 then Some 63
      else None)"

fun sextets :: "nat list \<Rightarrow> nat list" where
  "sextets (a # b # c # rest) =
     [a div 4, (a mod 4) * 16 + b div 16, (b mod 16) * 4 + c div 64, c mod 64] @ sextets rest"
| "sextets [a, b] = [a div 4, (a mod 4) * 16 + b div 16, (b mod 16) * 4]"
| "sextets [a] = [a div 4, (a mod 4) * 16]"
| "sextets [] = []"

fun octets :: "nat list \<Rightarrow> nat list" where
  "octets (s1 # s2 # s3 # s4 # rest) =
     [s1 * 4 + s2 div 16, (s2 mod 16) * 16 + s3 div 4, (s3 mod 4) * 64 + s4] @ octets rest"
| "octets [s1, s2, s3] = [s1 * 4 + s2 div 16, (s2 mod 16) * 16 + s3 div 4]"
| "octets [s1, s2] = [s1 * 4 + s2 div 16]"
| "octets _ = []"

definition Base64_encode :: "ByteArray \<Rightarrow> string" where
  "Base64_encode bs = map base64url_char (sextets (map unat bs))"

definition Base64_decode :: "string \<Rightarrow> ByteArray" where
  "Base64_decode s = map of_nat (octets (List.map_filter base64url_value s))"

subsection \<open>Enumerations and errors\<close>

datatype KeyType = EC | RSA | oct

datatype CurveType = p256 | p384 | p521

text \<open>
  One constructor for each \<^verbatim>\<open>throw\<close> of the file, named after its message; the string
  is the \<^verbatim>\<open>type\<close> or \<^verbatim>\<open>target\<close> the message interpolates. \<open>MissingKeyNode\<close> is the
  one \<^verbatim>\<open>MatterError\<close>, all others from the file are \<^verbatim>\<open>KeyError\<close>. \<open>TypeError\<close> is
  the exception of the JavaScript runtime, \<open>DerError\<close> whatever \<^verbatim>\<open>DerCodec.decode\<close>
  throws and \<open>ProviderError\<close> whatever the elliptic-curve library throws.
\<close>

datatype error =
    KeyVersionMismatch string
  | MissingObject string
  | UnsupportedEcCurve string
  | MissingKeyNode string
  | UnsupportedDecryptionAlgorithm string
  | InvalidPkcs8Key
  | InvalidPublicKeyEncoding
  | UnsupportedPublicKeyCompression
  | IllegalPublicKeyFormatSpecifier
  | CannotInferCurve
  | KeyFieldNotDefined string
  | EcKeyTypeRequired
  | EcPrivateKeyRequired
  | UnsupportedEllipticCurve
  | TypeError
  | DerError
  | ProviderError

text \<open>
  The spec names error kinds where the code has messages. \<open>kind\<close> records which kind
  each message is read as: the spec's section 4.E gives the kind next to the condition
  that the code answers with the message. Messages the spec gives no kind for are
  \<open>Unclassified\<close>.
\<close>

datatype error_kind =
    BadVersion | UnsupportedAlgorithm | UnknownCurve | UnsupportedCompression
  | BadFormat | MissingField | BadScalar | BadDer | Unclassified

fun kind :: "error \<Rightarrow> error_kind" where
  "kind (KeyVersionMismatch _) = BadVersion"
| "kind (UnsupportedDecryptionAlgorithm _) = UnsupportedAlgorithm"
| "kind (UnsupportedEcCurve _) = UnknownCurve"
| "kind CannotInferCurve = UnknownCurve"
| "kind UnsupportedEllipticCurve = UnknownCurve"
| "kind UnsupportedPublicKeyCompression = UnsupportedCompression"
| "kind InvalidPublicKeyEncoding = BadFormat"
| "kind IllegalPublicKeyFormatSpecifier = BadFormat"
| "kind (KeyFieldNotDefined _) = MissingField"
| "kind ProviderError = BadScalar"
| "kind DerError = BadDer"
| "kind _ = Unclassified"

text \<open>Sequencing of steps that may throw.\<close>

definition bind :: "error + 'a \<Rightarrow> ('a \<Rightarrow> error + 'b) \<Rightarrow> error + 'b" where
  "bind m f = (case m of Inl e \<Rightarrow> Inl e | Inr v \<Rightarrow> f v)"

fun run :: "('s \<Rightarrow> error + 's) list \<Rightarrow> 's \<Rightarrow> error + 's" where
  "run [] s = Inr s"
| "run (f # fs) s = bind (f s) (run fs)"

subsection \<open>DER nodes and the helpers that read them\<close>

text \<open>
  \<^verbatim>\<open>DerType\<close> and \<^verbatim>\<open>DerNode\<close> are declared in \<^verbatim>\<open>codec/DerCodec.ts\<close>, not among the
  sources; the file uses four tags by name, and a node's \<^verbatim>\<open>_tag\<close>, \<^verbatim>\<open>_bytes\<close> and
  \<^verbatim>\<open>_elements\<close>, the last two of which may be undefined. The decoder
  \<^verbatim>\<open>DerCodec.decode\<close> itself is a parameter \<open>decode\<close> of every function that calls it.
\<close>

datatype DerType = UnsignedInt | ObjectIdentifier | OctetString | BitString | OtherDerType nat

datatype DerNode =
  DerNode (der_tag: DerType) (der_bytes: "ByteArray option") (der_elements: "DerNode list option")

text \<open>\<^verbatim>\<open>node?._elements?.[i]\<close>: undefined when any link of the chain is.\<close>

definition element :: "DerNode option \<Rightarrow> nat \<Rightarrow> DerNode option" where
  "element node i =
     (case node of
        None \<Rightarrow> None
      | Some nd \<Rightarrow>
          (case der_elements nd of
             None \<Rightarrow> None
           | Some es \<Rightarrow> if i < length es then Some (es ! i) else None))"

definition ecPublicKey :: string where "ecPublicKey = ''2a8648ce3d0201''"
definition prime256r1 :: string where "prime256r1 = ''2a8648ce3d030107''"
definition prime384r1 :: string where "prime384r1 = ''0103840022''"
definition prime521r1 :: string where "prime521r1 = ''0103840023''"

definition CurveLookup :: "string \<Rightarrow> CurveType option" where
  "CurveLookup = map_of [(prime256r1, p256), (prime384r1, p384), (prime521r1, p521)]"

definition checkDerVersion :: "string \<Rightarrow> DerNode option \<Rightarrow> nat \<Rightarrow> error + unit" where
  "checkDerVersion ty node version =
     (case node of
        None \<Rightarrow> Inl (KeyVersionMismatch ty)
      | Some nd \<Rightarrow>
          (case der_bytes nd of
             None \<Rightarrow> Inl (KeyVersionMismatch ty)
           | Some bs \<Rightarrow>
               if der_tag nd = UnsignedInt \<and> length bs = 1 \<and> unat (bs ! 0) = version
               then Inr () else Inl (KeyVersionMismatch ty)))"

definition getDerObjectID :: "string \<Rightarrow> DerNode option \<Rightarrow> error + ByteArray" where
  "getDerObjectID ty node =
     (case node of
        None \<Rightarrow> Inl (MissingObject ty)
      | Some nd \<Rightarrow>
          (case der_bytes nd of
             None \<Rightarrow> Inl (MissingObject ty)
           | Some bs \<Rightarrow>
               if der_tag nd = ObjectIdentifier \<and> length bs > 1
               then Inr bs else Inl (MissingObject ty)))"

definition getDerCurve :: "string \<Rightarrow> DerNode option \<Rightarrow> error + CurveType" where
  "getDerCurve ty node =
     bind (getDerObjectID ty node) (\<lambda>oid.
       case CurveLookup (toHex oid) of
         Some curve \<Rightarrow> Inr curve
       | None \<Rightarrow> Inl (UnsupportedEcCurve ty))"

definition getDerKey :: "string \<Rightarrow> DerNode option \<Rightarrow> DerType \<Rightarrow> error + ByteArray" where
  "getDerKey ty node derType =
     (case node of
        None \<Rightarrow> Inl (MissingKeyNode ty)
      | Some nd \<Rightarrow>
          (case der_bytes nd of
             None \<Rightarrow> Inl (MissingKeyNode ty)
           | Some bs \<Rightarrow>
               if der_tag nd = derType \<and> length bs > 1
               then Inr bs else Inl (MissingKeyNode ty)))"

subsection \<open>The key object and the properties it is built from\<close>

text \<open>
  The own data properties of \<^verbatim>\<open>that\<close>: the names of \<^verbatim>\<open>JWK_KEYS\<close>, and \<^verbatim>\<open>alg\<close>, which
  the alias \<^verbatim>\<open>algorithm\<close> writes. \<open>None\<close> is \<^verbatim>\<open>undefined\<close>; the code never tells a
  property of \<^verbatim>\<open>that\<close> that is missing from one that is undefined.
\<close>

record Key =
  jwk_alg :: "string option"
  jwk_crv :: "CurveType option"
  jwk_d :: "string option"
  jwk_dp :: "string option"
  jwk_dq :: "string option"
  jwk_e :: "string option"
  jwk_ext :: "bool option"
  jwk_k :: "string option"
  jwk_key_ops :: "string list option"
  jwk_kty :: "KeyType option"
  jwk_n :: "string option"
  jwk_oth :: "string list option"
  jwk_p :: "string option"
  jwk_q :: "string option"
  jwk_qi :: "string option"
  jwk_use :: "string option"
  jwk_x :: "string option"
  jwk_y :: "string option"

record BinaryKeyPair =
  publicKey :: ByteArray
  privateKey :: ByteArray

text \<open>
  A property of the argument \<^verbatim>\<open>properties\<close> (and of \<^verbatim>\<open>options\<close>): not an own property
  of the object, an own property whose value is \<^verbatim>\<open>undefined\<close>, or one with a value.
  \<^verbatim>\<open>hasOwnProperty\<close> and the object spread tell the first two apart.
\<close>

datatype 'a field = Absent | Undefined | Given 'a

record Properties =
  p_crv :: "CurveType field"
  p_d :: "string field"
  p_dp :: "string field"
  p_dq :: "string field"
  p_e :: "string field"
  p_ext :: "bool field"
  p_k :: "string field"
  p_key_ops :: "string list field"
  p_kty :: "KeyType field"
  p_n :: "string field"
  p_oth :: "string list field"
  p_p :: "string field"
  p_q :: "string field"
  p_qi :: "string field"
  p_use :: "string field"
  p_x :: "string field"
  p_y :: "string field"
  p_algorithm :: "string field"
  p_curve :: "CurveType field"
  p_type :: "KeyType field"
  p_operations :: "string list field"
  p_private :: "string field"
  p_extractable :: "bool field"
  p_privateBits :: "ByteArray field"
  p_xBits :: "ByteArray field"
  p_yBits :: "ByteArray field"
  p_sec1 :: "ByteArray field"
  p_pkcs8 :: "ByteArray field"
  p_spki :: "ByteArray field"
  p_publicBits :: "ByteArray field"
  p_keyPairBits :: "BinaryKeyPair field"
  p_publicKey :: "ByteArray field"
  p_privateKey :: "ByteArray field"
  p_keyPair :: "BinaryKeyPair field"

text \<open>The object literal \<^verbatim>\<open>{}\<close>.\<close>

definition noProperties :: Properties where
  "noProperties =
     \<lparr> p_crv = Absent, p_d = Absent, p_dp = Absent, p_dq = Absent, p_e = Absent,
       p_ext = Absent, p_k = Absent, p_key_ops = Absent, p_kty = Absent, p_n = Absent,
       p_oth = Absent, p_p = Absent, p_q = Absent, p_qi = Absent, p_use = Absent,
       p_x = Absent, p_y = Absent,
       p_algorithm = Absent, p_curve = Absent, p_type = Absent, p_operations = Absent,
       p_private = Absent, p_extractable = Absent,
       p_privateBits = Absent, p_xBits = Absent, p_yBits = Absent,
       p_sec1 = Absent, p_pkcs8 = Absent, p_spki = Absent, p_publicBits = Absent,
       p_keyPairBits = Absent,
       p_publicKey = Absent, p_privateKey = Absent, p_keyPair = Absent \<rparr>"

text \<open>What reading \<^verbatim>\<open>properties[key]\<close> yields.\<close>

definition valueOf :: "'a field \<Rightarrow> 'a option" where
  "valueOf f = (case f of Given v \<Rightarrow> Some v | _ \<Rightarrow> None)"

text \<open>
  What a getter hands back. The codec getters answer \<^verbatim>\<open>false\<close>, not \<^verbatim>\<open>undefined\<close>,
  for a base field that is undefined; the getters above them compare with
  \<^verbatim>\<open>undefined\<close>, so the three are kept apart.
\<close>

datatype 'a js = JsUndefined | JsFalse | JsValue 'a

text \<open>A string in a condition: \<^verbatim>\<open>undefined\<close> and the empty string are falsy.\<close>

definition truthy :: "string option \<Rightarrow> bool" where
  "truthy s = (case s of None \<Rightarrow> False | Some t \<Rightarrow> t \<noteq> [])"

subsection \<open>Aliases and codecs\<close>

text \<open>\<^verbatim>\<open>Aliases\<close>: \<^verbatim>\<open>set: (value) => that[target] = value\<close>.\<close>

definition set_algorithm :: "string option \<Rightarrow> Key \<Rightarrow> Key" where
  "set_algorithm v that = that\<lparr>jwk_alg := v\<rparr>"

definition set_curve :: "CurveType option \<Rightarrow> Key \<Rightarrow> Key" where
  "set_curve v that = that\<lparr>jwk_crv := v\<rparr>"

definition set_type :: "KeyType option \<Rightarrow> Key \<Rightarrow> Key" where
  "set_type v that = that\<lparr>jwk_kty := v\<rparr>"

definition set_operations :: "string list option \<Rightarrow> Key \<Rightarrow> Key" where
  "set_operations v that = that\<lparr>jwk_key_ops := v\<rparr>"

definition set_private :: "string option \<Rightarrow> Key \<Rightarrow> Key" where
  "set_private v that = that\<lparr>jwk_d := v\<rparr>"

definition set_extractable :: "bool option \<Rightarrow> Key \<Rightarrow> Key" where
  "set_extractable v that = that\<lparr>jwk_ext := v\<rparr>"

text \<open>
  \<^verbatim>\<open>Base64Codecs\<close>:
  \<^verbatim>\<open>get: () => that[target] !== undefined && Base64.decode(that[target])\<close> and
  \<^verbatim>\<open>set: (value) => that[target] = value === undefined ? undefined : Base64.encode(value, true)\<close>.
\<close>

definition codec_get :: "string option \<Rightarrow> ByteArray js" where
  "codec_get target = (case target of None \<Rightarrow> JsFalse | Some s \<Rightarrow> JsValue (Base64_decode s))"

definition codec_set :: "ByteArray option \<Rightarrow> string option" where
  "codec_set v = (case v of None \<Rightarrow> None | Some b \<Rightarrow> Some (Base64_encode b))"

definition get_privateBits :: "Key \<Rightarrow> ByteArray js" where
  "get_privateBits that = codec_get (jwk_d that)"

definition set_privateBits :: "ByteArray option \<Rightarrow> Key \<Rightarrow> Key" where
  "set_privateBits v that = that\<lparr>jwk_d := codec_set v\<rparr>"

definition get_xBits :: "Key \<Rightarrow> ByteArray js" where
  "get_xBits that = codec_get (jwk_x that)"

definition set_xBits :: "ByteArray option \<Rightarrow> Key \<Rightarrow> Key" where
  "set_xBits v that = that\<lparr>jwk_x := codec_set v\<rparr>"

definition get_yBits :: "Key \<Rightarrow> ByteArray js" where
  "get_yBits that = codec_get (jwk_y that)"

definition set_yBits :: "ByteArray option \<Rightarrow> Key \<Rightarrow> Key" where
  "set_yBits v that = that\<lparr>jwk_y := codec_set v\<rparr>"

subsection \<open>Curve inference\<close>

definition inferCurve :: "Key \<Rightarrow> nat \<Rightarrow> error + Key" where
  "inferCurve key bytes =
     (case jwk_crv key of
        Some _ \<Rightarrow> Inr key
      | None \<Rightarrow>
          if bytes = 66 then Inr (set_curve (Some p521) key)
          else if bytes = 48 then Inr (set_curve (Some p384) key)
          else if bytes = 32 then Inr (set_curve (Some p256) key)
          else Inl CannotInferCurve)"

subsection \<open>Translators\<close>

text \<open>
  Each \<^verbatim>\<open>set\<close> of the module \<^verbatim>\<open>Translators\<close>, in the order the module lists them.
  The \<^verbatim>\<open>get\<close> of \<^verbatim>\<open>sec1\<close>, \<^verbatim>\<open>pkcs8\<close> and \<^verbatim>\<open>spki\<close> only throws and is never
  called by the file; it is left out.
\<close>

definition set_sec1 :: "(ByteArray \<Rightarrow> error + DerNode) \<Rightarrow> ByteArray \<Rightarrow> Key \<Rightarrow> error + Key" where
  "set_sec1 decode input that =
     bind (decode input) (\<lambda>decoded.
     bind (checkDerVersion ''SEC 1'' (element (Some decoded) 0) 1) (\<lambda>_.
     bind (getDerCurve ''SEC 1'' (element (element (Some decoded) 2) 0)) (\<lambda>curve.
     bind (getDerKey ''SEC 1'' (element (Some decoded) 1) OctetString) (\<lambda>key.
       Inr (set_privateBits (Some key) (set_curve (Some curve) (set_type (Some EC) that)))))))"

text \<open>
  \<^verbatim>\<open>outer?._elements?.[2]._bytes\<close> has no \<^verbatim>\<open>?.\<close> before \<^verbatim>\<open>_bytes\<close>: with a list of
  fewer than three elements the read throws a \<open>TypeError\<close>; with no list the chain is
  undefined and the code throws its own error.
\<close>

definition set_pkcs8 :: "(ByteArray \<Rightarrow> error + DerNode) \<Rightarrow> ByteArray \<Rightarrow> Key \<Rightarrow> error + Key" where
  "set_pkcs8 decode input that =
     bind (decode input) (\<lambda>outer.
     bind (checkDerVersion ''PKCS #8'' (element (Some outer) 0) 0) (\<lambda>_.
     bind (getDerObjectID ''PKCS #8'' (element (element (Some outer) 1) 0)) (\<lambda>algorithm.
       if toHex algorithm \<noteq> ecPublicKey then Inl (UnsupportedDecryptionAlgorithm ''PKCS #8'')
       else
     bind (getDerCurve ''PKCS #8'' (element (element (Some outer) 1) 1)) (\<lambda>curve.
     bind (case der_elements outer of
             None \<Rightarrow> Inl InvalidPkcs8Key
           | Some es \<Rightarrow>
               if 2 < length es
               then (case der_bytes (es ! 2) of
                       None \<Rightarrow> Inl InvalidPkcs8Key
                     | Some innerBytes \<Rightarrow> Inr innerBytes)
               else Inl TypeError) (\<lambda>innerBytes.
     bind (decode innerBytes) (\<lambda>inner.
     bind (getDerKey ''PKCS #8'' (element (Some inner) 1) OctetString) (\<lambda>key.
       Inr (set_privateBits (Some key) (set_curve (Some curve) (set_type (Some EC) that))))))))))"

text \<open>The \<^verbatim>\<open>switch\<close> on the first byte of a public point; it has no default case.\<close>

definition formatSpecifier :: "byte \<Rightarrow> error + unit" where
  "formatSpecifier b =
     (if b = 2 \<or> b = 3 then Inl UnsupportedPublicKeyCompression
      else if b = 4 then Inr ()
      else if b = 5 then Inl IllegalPublicKeyFormatSpecifier
      else Inr ())"

definition set_publicBits :: "ByteArray \<Rightarrow> Key \<Rightarrow> error + Key" where
  "set_publicBits input that =
     (if length input mod 2 = 0 then Inl InvalidPublicKeyEncoding
      else
        bind (formatSpecifier (input ! 0)) (\<lambda>_.
          let coordinateLength = (length input - 1) div 2 in
          bind (inferCurve that coordinateLength) (\<lambda>that.
            Inr (set_yBits (Some (slice_from input (coordinateLength + 1)))
                  (set_xBits (Some (slice input 1 (coordinateLength + 1)))
                    (set_type (Some EC) that))))))"

text \<open>
  The getter compares \<^verbatim>\<open>xBits\<close> and \<^verbatim>\<open>yBits\<close> with \<^verbatim>\<open>undefined\<close> and then spreads
  them into an array literal. Spreading \<^verbatim>\<open>false\<close>, which is not iterable, throws a
  \<open>TypeError\<close>.
\<close>

definition get_publicBits :: "Key \<Rightarrow> error + ByteArray js" where
  "get_publicBits that =
     (if get_xBits that = JsUndefined \<or> get_yBits that = JsUndefined then Inr JsUndefined
      else
        (case get_xBits that of
           JsValue xs \<Rightarrow>
             (case get_yBits that of
                JsValue ys \<Rightarrow> Inr (JsValue (4 # xs @ ys))
              | _ \<Rightarrow> Inl TypeError)
         | _ \<Rightarrow> Inl TypeError))"

definition set_spki :: "(ByteArray \<Rightarrow> error + DerNode) \<Rightarrow> ByteArray \<Rightarrow> Key \<Rightarrow> error + Key" where
  "set_spki decode input that =
     bind (decode input) (\<lambda>decoded.
     bind (getDerObjectID ''SPKI'' (element (element (Some decoded) 0) 0)) (\<lambda>algorithm.
       if toHex algorithm \<noteq> ecPublicKey then Inl (UnsupportedDecryptionAlgorithm ''SPKI'')
       else
     bind (getDerCurve ''SPKI'' (element (element (Some decoded) 0) 1)) (\<lambda>curve.
     bind (getDerKey ''SPKI'' (element (Some decoded) 1) BitString) (\<lambda>key.
       set_publicBits key (set_curve (Some curve) (set_type (Some EC) that))))))"

definition set_keyPairBits :: "BinaryKeyPair \<Rightarrow> Key \<Rightarrow> error + Key" where
  "set_keyPairBits keyPair that =
     bind (set_publicBits (publicKey keyPair) that) (\<lambda>that.
       Inr (set_privateBits (Some (privateKey keyPair)) that))"

text \<open>The pair the getter returns holds what the two getters under it returned.\<close>

definition get_keyPairBits :: "Key \<Rightarrow> error + (ByteArray js \<times> ByteArray js) js" where
  "get_keyPairBits that =
     bind (get_publicBits that) (\<lambda>publicBits.
       let privateBits = get_privateBits that in
       if publicBits = JsUndefined \<or> privateBits = JsUndefined then Inr JsUndefined
       else Inr (JsValue (publicBits, privateBits)))"

subsection \<open>Asserted aliases\<close>

text \<open>
  \<^verbatim>\<open>get\<close>: read the target, throw if the result is \<^verbatim>\<open>undefined\<close>, else return it.
  \<^verbatim>\<open>set\<close>: write the target.
\<close>

definition asserted :: "string \<Rightarrow> 'a js \<Rightarrow> error + 'a js" where
  "asserted target result =
     (if result = JsUndefined then Inl (KeyFieldNotDefined target) else Inr result)"

definition get_publicKey :: "Key \<Rightarrow> error + ByteArray js" where
  "get_publicKey that = bind (get_publicBits that) (asserted ''publicBits'')"

definition get_privateKey :: "Key \<Rightarrow> error + ByteArray js" where
  "get_privateKey that = asserted ''privateBits'' (get_privateBits that)"

definition get_keyPair :: "Key \<Rightarrow> error + (ByteArray js \<times> ByteArray js) js" where
  "get_keyPair that = bind (get_keyPairBits that) (asserted ''keyPairBits'')"

definition set_publicKey :: "ByteArray \<Rightarrow> Key \<Rightarrow> error + Key" where
  "set_publicKey v that = set_publicBits v that"

definition set_privateKey :: "ByteArray \<Rightarrow> Key \<Rightarrow> error + Key" where
  "set_privateKey v that = Inr (set_privateBits (Some v) that)"

definition set_keyPair :: "BinaryKeyPair \<Rightarrow> Key \<Rightarrow> error + Key" where
  "set_keyPair v that = set_keyPairBits v that"

subsection \<open>The public point of a private key\<close>

text \<open>
  The library \<^verbatim>\<open>elliptic\<close> is a parameter \<open>ec\<close>: for a curve and the bytes of a private
  key it throws or gives the coordinates \<^verbatim>\<open>getX()\<close> and \<^verbatim>\<open>getY()\<close> of
  \<^verbatim>\<open>keyFromPrivate(...).getPublic()\<close>, two big numbers. The file turns each into bytes
  with \<^verbatim>\<open>toArray()\<close>, called with no arguments: the big-endian bytes of the number with
  no leading zero byte, one byte for zero.
\<close>

fun BN_toArray :: "nat \<Rightarrow> ByteArray" where
  "BN_toArray n =
     (if n < 256 then [of_nat n] else BN_toArray (n div 256) @ [of_nat (n mod 256)])"

definition derivePublicFromPrivate ::
  "(CurveType \<Rightarrow> ByteArray \<Rightarrow> error + nat \<times> nat) \<Rightarrow> Key \<Rightarrow> error + Key" where
  "derivePublicFromPrivate ec that =
     (if jwk_kty that \<noteq> Some EC then Inl EcKeyTypeRequired
      else if \<not> truthy (jwk_d that) then Inl EcPrivateKeyRequired
      else
        (case jwk_crv that of
           None \<Rightarrow> Inl UnsupportedEllipticCurve
         | Some crv \<Rightarrow>
             bind (get_privateKey that) (\<lambda>priv.
               case priv of
                 JsValue bytes \<Rightarrow>
                   bind (ec crv bytes) (\<lambda>(X, Y).
                     Inr (set_yBits (Some (BN_toArray Y))
                           (set_xBits (Some (BN_toArray X)) that)))
               | _ \<Rightarrow> Inl TypeError)))"

subsection \<open>The factory\<close>

text \<open>
  The loop over \<^verbatim>\<open>JWK_KEYS\<close>. \<^verbatim>\<open>alg\<close> is not one of them, so it starts undefined
  whatever \<^verbatim>\<open>properties\<close> holds.
\<close>

definition baseProperties :: "Properties \<Rightarrow> Key" where
  "baseProperties properties =
     \<lparr> jwk_alg = None,
       jwk_crv = valueOf (p_crv properties),
       jwk_d = valueOf (p_d properties),
       jwk_dp = valueOf (p_dp properties),
       jwk_dq = valueOf (p_dq properties),
       jwk_e = valueOf (p_e properties),
       jwk_ext = valueOf (p_ext properties),
       jwk_k = valueOf (p_k properties),
       jwk_key_ops = valueOf (p_key_ops properties),
       jwk_kty = valueOf (p_kty properties),
       jwk_n = valueOf (p_n properties),
       jwk_oth = valueOf (p_oth properties),
       jwk_p = valueOf (p_p properties),
       jwk_q = valueOf (p_q properties),
       jwk_qi = valueOf (p_qi properties),
       jwk_use = valueOf (p_use properties),
       jwk_x = valueOf (p_x properties),
       jwk_y = valueOf (p_y properties) \<rparr>"

text \<open>
  \<^verbatim>\<open>assign(name)\<close>: when \<^verbatim>\<open>properties\<close> has the property with a value that is not
  \<^verbatim>\<open>undefined\<close>, write it to \<^verbatim>\<open>that[name]\<close>, which calls the setter of that name.
\<close>

definition assign :: "'a field \<Rightarrow> ('a \<Rightarrow> Key \<Rightarrow> error + Key) \<Rightarrow> Key \<Rightarrow> error + Key" where
  "assign f setter that = (case f of Given v \<Rightarrow> setter v that | _ \<Rightarrow> Inr that)"

text \<open>A setter that cannot throw, called with a value.\<close>

definition store :: "('a option \<Rightarrow> Key \<Rightarrow> Key) \<Rightarrow> 'a \<Rightarrow> Key \<Rightarrow> error + Key" where
  "store setter v that = Inr (setter (Some v) that)"

text \<open>The last block of the factory (\<^verbatim>\<open>if (that.type === KeyType.EC) ...\<close>).\<close>

definition completeEC ::
  "(CurveType \<Rightarrow> ByteArray \<Rightarrow> error + nat \<times> nat) \<Rightarrow> Key \<Rightarrow> error + Key" where
  "completeEC ec that =
     (if jwk_kty that = Some EC then
        bind (if truthy (jwk_d that) then
                bind (get_privateKey that) (\<lambda>priv.
                  case priv of
                    JsValue bytes \<Rightarrow> inferCurve that (length bytes)
                  | _ \<Rightarrow> Inl TypeError)
              else
                (case get_xBits that of
                   JsValue bytes \<Rightarrow> inferCurve that (length bytes)
                 | _ \<Rightarrow> Inr that)) (\<lambda>that.
          if truthy (jwk_d that) \<and> (\<not> truthy (jwk_x that) \<or> \<not> truthy (jwk_y that))
          then derivePublicFromPrivate ec that
          else Inr that)
      else Inr that)"

text \<open>
  The steps of \<^verbatim>\<open>Key(properties)\<close> after the base properties, one list for each
  \<^verbatim>\<open>forEach\<close> of the code and in its order: the entries of \<^verbatim>\<open>Aliases\<close>, of
  \<^verbatim>\<open>Base64Codecs\<close>, the keys of \<^verbatim>\<open>Translators\<close>, the entries of
  \<^verbatim>\<open>AssertedAliases\<close>.
\<close>

definition aliasSteps :: "Properties \<Rightarrow> (Key \<Rightarrow> error + Key) list" where
  "aliasSteps properties =
     [assign (p_algorithm properties) (store set_algorithm),
      assign (p_curve properties) (store set_curve),
      assign (p_type properties) (store set_type),
      assign (p_operations properties) (store set_operations),
      assign (p_private properties) (store set_private),
      assign (p_extractable properties) (store set_extractable)]"

definition codecSteps :: "Properties \<Rightarrow> (Key \<Rightarrow> error + Key) list" where
  "codecSteps properties =
     [assign (p_privateBits properties) (store set_privateBits),
      assign (p_xBits properties) (store set_xBits),
      assign (p_yBits properties) (store set_yBits)]"

definition translatorSteps ::
  "(ByteArray \<Rightarrow> error + DerNode) \<Rightarrow> Properties \<Rightarrow> (Key \<Rightarrow> error + Key) list" where
  "translatorSteps decode properties =
     [assign (p_sec1 properties) (set_sec1 decode),
      assign (p_pkcs8 properties) (set_pkcs8 decode),
      assign (p_spki properties) (set_spki decode),
      assign (p_publicBits properties) set_publicBits,
      assign (p_keyPairBits properties) set_keyPairBits]"

definition assertedSteps :: "Properties \<Rightarrow> (Key \<Rightarrow> error + Key) list" where
  "assertedSteps properties =
     [assign (p_publicKey properties) set_publicKey,
      assign (p_privateKey properties) set_privateKey,
      assign (p_keyPair properties) set_keyPair]"

definition Key ::
  "(ByteArray \<Rightarrow> error + DerNode) \<Rightarrow> (CurveType \<Rightarrow> ByteArray \<Rightarrow> error + nat \<times> nat) \<Rightarrow>
   Properties \<Rightarrow> error + Key" where
  "Key decode ec properties =
     run (aliasSteps properties @ codecSteps properties @ translatorSteps decode properties @
          assertedSteps properties @ [completeEC ec])
       (baseProperties properties)"

subsection \<open>The factory variants\<close>

text \<open>
  \<^verbatim>\<open>{ type: ..., privateKey: ..., ...options }\<close>: a property of \<^verbatim>\<open>options\<close> replaces
  the one written before it, also when its value is \<^verbatim>\<open>undefined\<close>. An \<^verbatim>\<open>options\<close>
  that is left out spreads like \<^verbatim>\<open>{}\<close>.
\<close>

definition spread :: "'a field \<Rightarrow> 'a field \<Rightarrow> 'a field" where
  "spread own opt = (if opt = Absent then own else opt)"

definition PrivateKey ::
  "(ByteArray \<Rightarrow> error + DerNode) \<Rightarrow> (CurveType \<Rightarrow> ByteArray \<Rightarrow> error + nat \<times> nat) \<Rightarrow>
   ByteArray + BinaryKeyPair \<Rightarrow> Properties \<Rightarrow> error + Key" where
  "PrivateKey decode ec key options =
     (let priv = (case key of Inl bytes \<Rightarrow> bytes | Inr pair \<Rightarrow> privateKey pair);
          pub = (case key of Inl bytes \<Rightarrow> Undefined | Inr pair \<Rightarrow> Given (publicKey pair))
      in Key decode ec
           (options\<lparr> p_type := spread (Given EC) (p_type options),
                     p_privateKey := spread (Given priv) (p_privateKey options),
                     p_publicKey := spread pub (p_publicKey options) \<rparr>))"

definition PublicKey ::
  "(ByteArray \<Rightarrow> error + DerNode) \<Rightarrow> (CurveType \<Rightarrow> ByteArray \<Rightarrow> error + nat \<times> nat) \<Rightarrow>
   ByteArray \<Rightarrow> Properties \<Rightarrow> error + Key" where
  "PublicKey decode ec key options =
     Key decode ec
       (options\<lparr> p_type := spread (Given EC) (p_type options),
                 p_publicKey := spread (Given key) (p_publicKey options) \<rparr>)"

definition SymmetricKey ::
  "(ByteArray \<Rightarrow> error + DerNode) \<Rightarrow> (CurveType \<Rightarrow> ByteArray \<Rightarrow> error + nat \<times> nat) \<Rightarrow>
   ByteArray \<Rightarrow> Properties \<Rightarrow> error + Key" where
  "SymmetricKey decode ec key options =
     Key decode ec
       (options\<lparr> p_type := spread (Given oct) (p_type options),
                 p_privateKey := spread (Given key) (p_privateKey options) \<rparr>)"

subsection \<open>Sample inputs\<close>

text \<open>
  What a decoder hands back for a SEC1 private key on P-384 that names its curve by the
  object identifier 1.3.132.0.34: a sequence of the version 1, the 48 bytes of the
  private key and the tagged curve parameter, whose content bytes are
  \<^verbatim>\<open>2b 81 04 00 22\<close>.
\<close>

definition sec1_secp384r1 :: DerNode where
  "sec1_secp384r1 =
     DerNode (OtherDerType 48) None (Some
       [DerNode UnsignedInt (Some [1]) None,
        DerNode OctetString (Some (replicate 48 1)) None,
        DerNode (OtherDerType 160) None (Some
          [DerNode ObjectIdentifier (Some [0x2b, 0x81, 0x04, 0x00, 0x22]) None])])"

text \<open>
  The public point of the P-256 private key 43, that is 43 times the base point of the
  curve, as the library computes it. Its second coordinate is below \<open>2 ^ 248\<close>.
\<close>

definition publicPoint43 :: "nat \<times> nat" where
  "publicPoint43 =
     (0x986ae2506f1ff104d04230861d8f4b498f4bc4c6d009b30f7544dc129b82d28d,
      0x3cccc0a6460e0ae328a4d97d3c7b61d86fc6289c189f2525110c441bb07e97)"

section \<open>Basic facts\<close>

lemma bind_Inl [simp]: "bind (Inl e) f = Inl e"
  by (simp add: bind_def)

lemma bind_Inr [simp]: "bind (Inr v) f = f v"
  by (simp add: bind_def)

lemma run_append: "run (fs @ gs) s = bind (run fs s) (run gs)"
  by (induction fs arbitrary: s) (auto simp: bind_def split: sum.splits)

lemma assign_simps [simp]:
  "assign Absent f that = Inr that"
  "assign Undefined f that = Inr that"
  "assign (Given v) f that = f v that"
  by (simp_all add: assign_def)

lemma bind_Inr_right [simp]: "bind m Inr = m"
  by (simp add: bind_def split: sum.splits)

lemma run_single [simp]: "run [f] s = f s"
  by (simp add: bind_def split: sum.splits)

lemma assign_store_keeps:
  assumes "P t" and "\<And>v. P (g (Some v) t)"
  shows "\<exists>t'. assign f (store g) t = Inr t' \<and> P t'"
  by (cases f) (simp_all add: store_def assms)

lemma run_keeps:
  assumes "P t" and "\<And>f t. f \<in> set fs \<Longrightarrow> P t \<Longrightarrow> \<exists>t'. f t = Inr t' \<and> P t'"
  shows "\<exists>t'. run fs t = Inr t' \<and> P t'"
  using assms
proof (induction fs arbitrary: t)
  case Nil
  then show ?case by simp
next
  case (Cons f fs)
  from Cons.prems obtain t1 where t1: "f t = Inr t1" "P t1"
    by (meson list.set_intros(1))
  from Cons.IH [OF t1(2)] Cons.prems(2) obtain t' where "run fs t1 = Inr t'" "P t'"
    by (meson list.set_intros(2))
  with t1 show ?case by simp
qed

lemma assign_not_given: "valueOf f = None \<Longrightarrow> assign f g that = Inr that"
  by (cases f) (simp_all add: valueOf_def)

lemmas step_defs = aliasSteps_def codecSteps_def translatorSteps_def assertedSteps_def

lemmas empty_key_defs = baseProperties_def noProperties_def valueOf_def

subsection \<open>Base64 round trip\<close>

lemma base64url_value_char: "n < 64 \<Longrightarrow> base64url_value (base64url_char n) = Some n"
  by (auto simp: base64url_value_def base64url_char_def Let_def)

lemma sextets_bound: "\<forall>n \<in> set ns. n < 256 \<Longrightarrow> \<forall>s \<in> set (sextets ns). s < 64"
  by (induction ns rule: sextets.induct) (auto simp: less_mult_imp_div_less)

lemma octets_sextets: "\<forall>n \<in> set ns. n < 256 \<Longrightarrow> octets (sextets ns) = ns"
proof (induction ns rule: sextets.induct)
  case (1 a b c rest)
  then have "b div 16 < 16" and "c div 64 < 4"
    by (simp_all add: less_mult_imp_div_less)
  with 1 show ?case by simp
next
  case (2 a b)
  then have "b div 16 < 16"
    by (simp add: less_mult_imp_div_less)
  then show ?case by simp
qed simp_all

lemma map_filter_value_char:
  "\<forall>s \<in> set ss. s < 64 \<Longrightarrow> List.map_filter base64url_value (map base64url_char ss) = ss"
  by (induction ss) (simp_all add: List.map_filter_simps base64url_value_char)

lemma unat_bytes_bound: "\<forall>n \<in> set (map unat (bs :: ByteArray)). n < 256"
proof
  fix n assume "n \<in> set (map unat bs)"
  then obtain w :: byte where "n = unat w" by auto
  then show "n < 256" using unsigned_less [of w] by simp
qed

lemma Base64_roundtrip [simp]: "Base64_decode (Base64_encode bs) = bs"
  unfolding Base64_encode_def Base64_decode_def
  by (simp add: map_filter_value_char [OF sextets_bound [OF unat_bytes_bound]]
      octets_sextets [OF unat_bytes_bound] map_idI)

lemma Base64_encode_alphabet: "filter (\<lambda>c. base64url_value c = None) (Base64_encode bs) = []"
proof -
  have "\<forall>s \<in> set (sextets (map unat bs)). s < 64"
    by (rule sextets_bound [OF unat_bytes_bound])
  then have "\<forall>c \<in> set (Base64_encode bs). base64url_value c \<noteq> None"
    unfolding Base64_encode_def by (simp add: base64url_value_char)
  then show ?thesis
    by (simp add: filter_empty_conv)
qed

lemma Base64_encode_unpadded: "CHR ''='' \<notin> set (Base64_encode bs)"
proof
  assume "CHR ''='' \<in> set (Base64_encode bs)"
  then have "CHR ''='' \<in> set (filter (\<lambda>c. base64url_value c = None) (Base64_encode bs))"
    by (simp add: base64url_value_def)
  then show False by (simp add: Base64_encode_alphabet)
qed

lemma Base64_encode_Nil [simp]: "Base64_encode [] = []"
  by (simp add: Base64_encode_def)

lemma Base64_encode_eq_Nil [simp]: "Base64_encode bs = [] \<longleftrightarrow> bs = []"
proof
  assume a: "Base64_encode bs = []"
  have "bs = Base64_decode (Base64_encode bs)" by simp
  also have "\<dots> = Base64_decode []" by (simp only: a)
  finally show "bs = []" by (simp add: Base64_decode_def List.map_filter_simps)
qed simp

lemma codec_roundtrip [simp]: "codec_get (codec_set (Some b)) = JsValue b"
  by (simp add: codec_get_def codec_set_def)

lemma codec_get_never_undefined [simp]: "codec_get t \<noteq> JsUndefined"
  by (simp add: codec_get_def split: option.splits)

subsection \<open>Object identifiers, curve inference and the public point importer\<close>

lemma toHex_Cons: "toHex (b # bs) = hexDigit (unat b div 16) # hexDigit (unat b mod 16) # toHex bs"
  by (simp add: toHex_def)

lemma toHex_Nil: "toHex [] = []"
  by (simp add: toHex_def)

lemmas oid_simps =
  getDerCurve_def getDerObjectID_def CurveLookup_def toHex_Cons toHex_Nil hexDigit_def
  prime256r1_def prime384r1_def prime521r1_def

lemma inferCurve_cases:
  "inferCurve key n =
     (if jwk_crv key \<noteq> None then Inr key
      else if n = 66 then Inr (key\<lparr>jwk_crv := Some p521\<rparr>)
      else if n = 48 then Inr (key\<lparr>jwk_crv := Some p384\<rparr>)
      else if n = 32 then Inr (key\<lparr>jwk_crv := Some p256\<rparr>)
      else Inl CannotInferCurve)"
  by (auto simp: inferCurve_def set_curve_def split: option.splits)

lemma set_publicBits_passed:
  "odd (length input) \<Longrightarrow> input ! 0 \<notin> {2, 3, 5} \<Longrightarrow>
   set_publicBits input that =
     bind (inferCurve that ((length input - 1) div 2)) (\<lambda>that.
       Inr (set_yBits (Some (slice_from input ((length input - 1) div 2 + 1)))
             (set_xBits (Some (slice input 1 ((length input - 1) div 2 + 1)))
               (set_type (Some EC) that))))"
  by (auto simp: set_publicBits_def formatSpecifier_def Let_def odd_iff_mod_2_eq_one)

declare BN_toArray.simps [simp del]

lemma set_publicBits_result:
  assumes "set_publicBits v t = Inr t'"
  shows "get_xBits t' = JsValue (slice v 1 ((length v - 1) div 2 + 1))
    \<and> get_yBits t' = JsValue (slice_from v ((length v - 1) div 2 + 1))
    \<and> jwk_d t' = jwk_d t \<and> jwk_kty t' = Some EC"
proof -
  from assms have o: "odd (length v)"
    by (auto simp: set_publicBits_def split: if_splits)
  from assms o have f: "v ! 0 \<notin> {2, 3, 5}"
    by (auto simp: set_publicBits_def formatSpecifier_def odd_iff_mod_2_eq_one split: if_splits)
  from assms show ?thesis
    unfolding set_publicBits_passed [OF o f]
    by (auto simp: inferCurve_cases set_xBits_def set_yBits_def set_type_def get_xBits_def
        get_yBits_def split: if_splits)
qed

subsection \<open>The last block of the factory\<close>

lemma Key_split:
  "Key decode ec p =
     bind (run (aliasSteps p @ codecSteps p @ translatorSteps decode p @ assertedSteps p)
            (baseProperties p))
       (completeEC ec)"
proof -
  have "aliasSteps p @ codecSteps p @ translatorSteps decode p @ assertedSteps p @ [completeEC ec]
    = (aliasSteps p @ codecSteps p @ translatorSteps decode p @ assertedSteps p) @ [completeEC ec]"
    by simp
  then show ?thesis
    unfolding Key_def by (simp only: run_append [of _ "[completeEC ec]"] run_single) (simp add: bind_def split: sum.splits)
qed

lemma derive_keeps_curve:
  "derivePublicFromPrivate ec t = Inr k \<Longrightarrow> jwk_crv k = jwk_crv t"
  by (auto simp: derivePublicFromPrivate_def get_privateKey_def asserted_def bind_def
      set_xBits_def set_yBits_def split: if_splits option.splits sum.splits js.splits prod.splits)

lemma derive_result:
  assumes "jwk_kty t = Some EC" and "jwk_d t = Some s" and "s \<noteq> []" and "jwk_crv t = Some c"
    and "ec c (Base64_decode s) = Inr (X, Y)"
  shows "derivePublicFromPrivate ec t =
     Inr (set_yBits (Some (BN_toArray Y)) (set_xBits (Some (BN_toArray X)) t))"
  using assms
  by (simp add: derivePublicFromPrivate_def truthy_def get_privateKey_def asserted_def
      get_privateBits_def codec_get_def)

lemma BN_toArray_length: "n < 256 ^ k \<Longrightarrow> 0 < k \<Longrightarrow> length (BN_toArray n) \<le> k"
proof (induction k arbitrary: n)
  case 0
  then show ?case by simp
next
  case (Suc k)
  show ?case
  proof (cases "n < 256")
    case True
    then show ?thesis by (simp add: BN_toArray.simps [of n])
  next
    case False
    with Suc.prems have k: "0 < k" by (cases k) auto
    from Suc.prems have "n div 256 < 256 ^ k"
      by (simp add: less_mult_imp_div_less mult.commute)
    from Suc.IH [OF this k] False show ?thesis
      by (simp add: BN_toArray.simps [of n])
  qed
qed

lemma get_publicBits_of:
  "get_xBits k = JsValue xs \<Longrightarrow> get_yBits k = JsValue ys \<Longrightarrow>
   get_publicBits k = Inr (JsValue (4 # xs @ ys))"
  by (simp add: get_publicBits_def)

section \<open>The claims\<close>

text \<open>
  Claim C1. The claim: a curve identifier 1.2.840.10045.3.1.7 yields P-256, the
  canonical identifiers of P-384 and P-521 (content bytes \<^verbatim>\<open>2b81040022\<close> and
  \<^verbatim>\<open>2b81040023\<close>) yield P-384 and P-521, and every other identifier fails as an
  unknown curve. The code at these inputs: the P-256 identifier is found; the two
  canonical identifiers are not in \<open>CurveLookup\<close> and are refused as unsupported
  curves; the byte strings \<^verbatim>\<open>0103840022\<close> and \<^verbatim>\<open>0103840023\<close>, which are outside the
  standard table, are accepted as P-384 and P-521; and the SEC1 import of a P-384 key
  with the canonical identifier fails.
\<close>

theorem getDerCurve_canonical_oids:
  "getDerCurve ty (Some (DerNode ObjectIdentifier
       (Some [0x2a, 0x86, 0x48, 0xce, 0x3d, 0x03, 0x01, 0x07]) es)) = Inr p256
   \<and> getDerCurve ty (Some (DerNode ObjectIdentifier
       (Some [0x2b, 0x81, 0x04, 0x00, 0x22]) es)) = Inl (UnsupportedEcCurve ty)
   \<and> getDerCurve ty (Some (DerNode ObjectIdentifier
       (Some [0x2b, 0x81, 0x04, 0x00, 0x23]) es)) = Inl (UnsupportedEcCurve ty)
   \<and> getDerCurve ty (Some (DerNode ObjectIdentifier
       (Some [0x01, 0x03, 0x84, 0x00, 0x22]) es)) = Inr p384
   \<and> getDerCurve ty (Some (DerNode ObjectIdentifier
       (Some [0x01, 0x03, 0x84, 0x00, 0x23]) es)) = Inr p521
   \<and> set_sec1 (\<lambda>bytes. Inr sec1_secp384r1) input that = Inl (UnsupportedEcCurve ''SEC 1'')
   \<and> kind (UnsupportedEcCurve ''SEC 1'') = UnknownCurve"
  by (simp add: set_sec1_def sec1_secp384r1_def checkDerVersion_def element_def oid_simps)

text \<open>
  \<^verbatim>\<open>SymmetricKey\<close> of the bytes \<^verbatim>\<open>01 02 03\<close> with no options: the key type is
  \<open>oct\<close>, the encoded bytes are in the field \<open>d\<close>, and the field \<open>k\<close> is
  undefined.
\<close>

theorem SymmetricKey_leaves_k_undefined:
  "\<exists>key. SymmetricKey (\<lambda>bytes. Inl DerError) (\<lambda>crv bytes. Inl ProviderError) [1, 2, 3] noProperties = Inr key
     \<and> jwk_kty key = Some oct
     \<and> jwk_k key = None
     \<and> jwk_d key = Some (Base64_encode [1, 2, 3])"
  by (simp add: SymmetricKey_def Key_def spread_def step_defs noProperties_def baseProperties_def
      valueOf_def store_def set_type_def set_privateKey_def set_privateBits_def codec_set_def
      completeEC_def)

text \<open>
  Claim C2, as amended. For every byte array \<open>raw\<close> and every \<open>options\<close> that has no
  property \<^verbatim>\<open>type\<close> or \<^verbatim>\<open>privateKey\<close> and gives no value for an importer
  (\<^verbatim>\<open>sec1\<close>, \<^verbatim>\<open>pkcs8\<close>, \<^verbatim>\<open>spki\<close>, \<^verbatim>\<open>publicBits\<close>, \<^verbatim>\<open>keyPairBits\<close>) or for
  \<^verbatim>\<open>publicKey\<close> or \<^verbatim>\<open>keyPair\<close>, \<^verbatim>\<open>SymmetricKey(raw, options)\<close> returns a key whose
  \<open>kty\<close> is \<open>oct\<close> and whose field \<open>d\<close> is the Base64 encoding of \<open>raw\<close>: the
  bytes go through the alias \<open>privateKey\<close> to \<open>privateBits\<close>, which is the codec of
  \<open>d\<close>. The field \<open>k\<close> is what \<open>options\<close> gives it, undefined if nothing.
\<close>

theorem SymmetricKey_sets_kty_and_d:
  assumes "p_type options = Absent" and "p_privateKey options = Absent"
    and "valueOf (p_sec1 options) = None" and "valueOf (p_pkcs8 options) = None"
    and "valueOf (p_spki options) = None" and "valueOf (p_publicBits options) = None"
    and "valueOf (p_keyPairBits options) = None" and "valueOf (p_publicKey options) = None"
    and "valueOf (p_keyPair options) = None"
  shows "\<exists>key. SymmetricKey decode ec raw options = Inr key
           \<and> jwk_kty key = Some oct
           \<and> jwk_d key = Some (Base64_encode raw)
           \<and> jwk_k key = valueOf (p_k options)"
proof -
  define p where "p = options\<lparr>p_type := Given oct, p_privateKey := Given raw\<rparr>"
  define P1 where "P1 = (\<lambda>t :: Key. jwk_k t = valueOf (p_k options))"
  define P2 where "P2 = (\<lambda>t :: Key. jwk_k t = valueOf (p_k options) \<and> jwk_kty t = Some oct)"
  have sym: "SymmetricKey decode ec raw options = Key decode ec p"
    using assms(1,2) by (simp add: SymmetricKey_def spread_def p_def)
  define first where "first = [assign (p_algorithm p) (store set_algorithm),
      assign (p_curve p) (store set_curve)]"
  define rest where "rest = [assign (p_operations p) (store set_operations),
      assign (p_private p) (store set_private),
      assign (p_extractable p) (store set_extractable)] @ codecSteps p"
  have steps: "aliasSteps p @ codecSteps p @ translatorSteps decode p @ assertedSteps p @ [completeEC ec]
    = first @ [assign (p_type p) (store set_type)] @ rest
      @ translatorSteps decode p @ assertedSteps p @ [completeEC ec]"
    by (simp add: aliasSteps_def first_def rest_def)
  have "\<exists>t'. run first (baseProperties p) = Inr t' \<and> P1 t'"
  proof (rule run_keeps)
    show "P1 (baseProperties p)"
      by (simp add: P1_def baseProperties_def p_def)
  next
    fix f t
    assume "f \<in> set first" and "P1 t"
    then show "\<exists>t'. f t = Inr t' \<and> P1 t'"
      by (auto simp: first_def P1_def set_algorithm_def set_curve_def intro!: assign_store_keeps)
  qed
  then obtain t2 where t2: "run first (baseProperties p) = Inr t2" "P1 t2"
    by blast
  define t3 where "t3 = set_type (Some oct) t2"
  have s3: "assign (p_type p) (store set_type) t2 = Inr t3"
    by (simp add: p_def store_def t3_def)
  have "\<exists>t'. run rest t3 = Inr t' \<and> P2 t'"
  proof (rule run_keeps)
    show "P2 t3"
      using t2(2) by (simp add: P1_def P2_def t3_def set_type_def)
  next
    fix f t
    assume "f \<in> set rest" and "P2 t"
    then show "\<exists>t'. f t = Inr t' \<and> P2 t'"
      by (auto simp: rest_def P2_def codecSteps_def set_operations_def set_private_def
          set_extractable_def set_privateBits_def set_xBits_def set_yBits_def
          intro!: assign_store_keeps)
  qed
  then obtain t9 where t9: "run rest t3 = Inr t9" "P2 t9"
    by blast
  have tr: "run (translatorSteps decode p) t9 = Inr t9"
    using assms(3-7) by (simp add: translatorSteps_def p_def assign_not_given)
  have as: "run (assertedSteps p) t9 = Inr (set_privateBits (Some raw) t9)"
    using assms(8,9) by (simp add: assertedSteps_def p_def assign_not_given set_privateKey_def)
  have fin: "completeEC ec (set_privateBits (Some raw) t9) = Inr (set_privateBits (Some raw) t9)"
    using t9(2) by (simp add: completeEC_def P2_def set_privateBits_def)
  have "Key decode ec p = Inr (set_privateBits (Some raw) t9)"
    unfolding Key_def steps
    by (simp only: run_append t2 s3 t9 tr as fin bind_Inr run_single)
  with sym t9(2) show ?thesis
    by (simp add: P2_def set_privateBits_def codec_set_def)
qed

theorem SymmetricKey_sets_kty_and_d_witness:
  "\<exists>key. SymmetricKey (\<lambda>bytes. Inl DerError) (\<lambda>crv bytes. Inl ProviderError) [1, 2, 3]
            (noProperties\<lparr>p_k := Given ''abc'', p_algorithm := Given ''A128GCM''\<rparr>) = Inr key
     \<and> jwk_kty key = Some oct
     \<and> jwk_d key = Some (Base64_encode [1, 2, 3])
     \<and> jwk_k key = Some ''abc''"
  using SymmetricKey_sets_kty_and_d [of "noProperties\<lparr>p_k := Given ''abc'', p_algorithm := Given ''A128GCM''\<rparr>"
      "\<lambda>bytes. Inl DerError" "\<lambda>crv bytes. Inl ProviderError" "[1, 2, 3]"]
  by (simp add: noProperties_def valueOf_def)

text \<open>
  Claim C3. The claim: for an EC key with \<open>d\<close> present and \<open>x\<close> or \<open>y\<close> absent
  the factory installs both coordinates, and \<open>xBits\<close> and \<open>yBits\<close> each have the
  field size of the curve in bytes (32 for P-256), padded with zero bytes on the left.
  The code, for a private key of 32 bytes and nothing else: the curve is P-256 and
  both coordinates are installed, each as the bytes \<^verbatim>\<open>toArray()\<close> gives for the
  number, with no padding; a coordinate below \<open>256 ^ 31\<close> is stored in fewer than
  32 bytes. An instance is the private key 43, whose \<open>yBits\<close> has 31 bytes; the
  \<open>publicBits\<close> of that key has 64 bytes, a length the importer of public points of
  the same file refuses.
\<close>

theorem derived_coordinates_not_padded:
  assumes "length priv = 32" and "ec p256 priv = Inr (X, Y)"
  shows "\<exists>k. Key decode ec (noProperties\<lparr>p_type := Given EC, p_privateKey := Given priv\<rparr>) = Inr k
     \<and> jwk_kty k = Some EC \<and> jwk_crv k = Some p256
     \<and> get_privateBits k = JsValue priv
     \<and> get_xBits k = JsValue (BN_toArray X)
     \<and> get_yBits k = JsValue (BN_toArray Y)
     \<and> get_publicBits k = Inr (JsValue (4 # BN_toArray X @ BN_toArray Y))
     \<and> (X < 256 ^ 31 \<longrightarrow> length (BN_toArray X) < 32)
     \<and> (Y < 256 ^ 31 \<longrightarrow> length (BN_toArray Y) < 32)"
proof -
  let ?p = "noProperties\<lparr>p_type := Given EC, p_privateKey := Given priv\<rparr>"
  let ?t = "set_privateBits (Some priv) (set_type (Some EC) (baseProperties noProperties))"
  let ?t' = "set_curve (Some p256) ?t"
  from assms(1) have ne: "priv \<noteq> []" by auto
  have r: "run (aliasSteps ?p @ codecSteps ?p @ translatorSteps decode ?p @ assertedSteps ?p)
      (baseProperties ?p) = Inr ?t"
    by (simp add: step_defs noProperties_def store_def set_privateKey_def baseProperties_def)
  have d: "derivePublicFromPrivate ec ?t' =
      Inr (set_yBits (Some (BN_toArray Y)) (set_xBits (Some (BN_toArray X)) ?t'))"
    by (rule derive_result [where s = "Base64_encode priv" and c = p256])
      (simp_all add: set_curve_def set_privateBits_def set_type_def codec_set_def ne assms(2))
  have c: "completeEC ec ?t =
      Inr (set_yBits (Some (BN_toArray Y)) (set_xBits (Some (BN_toArray X)) ?t'))"
    unfolding d [symmetric]
    using ne assms(1)
    by (simp add: completeEC_def truthy_def get_privateKey_def asserted_def get_privateBits_def
        codec_get_def inferCurve_cases set_privateBits_def set_type_def set_curve_def codec_set_def
        empty_key_defs)
  have K: "Key decode ec ?p =
      Inr (set_yBits (Some (BN_toArray Y)) (set_xBits (Some (BN_toArray X)) ?t'))"
    by (simp add: Key_split r c)
  have lx: "length (BN_toArray X) < 32" if "X < 256 ^ 31"
    using BN_toArray_length [OF that] by simp
  have ly: "length (BN_toArray Y) < 32" if "Y < 256 ^ 31"
    using BN_toArray_length [OF that] by simp
  show ?thesis
    unfolding K using lx ly
    by (simp add: set_yBits_def set_xBits_def set_curve_def set_privateBits_def set_type_def
        get_privateBits_def get_xBits_def get_yBits_def get_publicBits_def)
qed

theorem derived_coordinates_not_padded_witness:
  "length (replicate 31 0 @ [43 :: byte]) = 32
   \<and> (\<exists>k. Key (\<lambda>bytes. Inl DerError) (\<lambda>crv bytes. Inr publicPoint43)
          (noProperties\<lparr>p_type := Given EC, p_privateKey := Given (replicate 31 0 @ [43])\<rparr>) = Inr k
        \<and> jwk_kty k = Some EC \<and> jwk_crv k = Some p256
        \<and> get_xBits k = JsValue (BN_toArray (fst publicPoint43))
        \<and> get_yBits k = JsValue (BN_toArray (snd publicPoint43))
        \<and> get_publicBits k =
            Inr (JsValue (4 # BN_toArray (fst publicPoint43) @ BN_toArray (snd publicPoint43))))
   \<and> length (BN_toArray (fst publicPoint43)) = 32
   \<and> length (BN_toArray (snd publicPoint43)) = 31
   \<and> set_publicBits (4 # BN_toArray (fst publicPoint43) @ BN_toArray (snd publicPoint43))
         (baseProperties noProperties) = Inl InvalidPublicKeyEncoding"
proof -
  have h1: "length (replicate 31 0 @ [43 :: byte]) = 32" by simp
  have h2: "(\<lambda>(crv :: CurveType) (bytes :: ByteArray). (Inr publicPoint43 :: error + nat \<times> nat)) p256
      (replicate 31 0 @ [43]) = Inr (fst publicPoint43, snd publicPoint43)"
    by simp
  have lx: "length (BN_toArray (fst publicPoint43)) = 32"
    by (simp add: publicPoint43_def BN_toArray.simps)
  have ly: "length (BN_toArray (snd publicPoint43)) = 31"
    by (simp add: publicPoint43_def BN_toArray.simps)
  from derived_coordinates_not_padded [OF h1 h2, of "\<lambda>bytes. Inl DerError"] have ex:
    "\<exists>k. Key (\<lambda>bytes. Inl DerError) (\<lambda>crv bytes. Inr publicPoint43)
          (noProperties\<lparr>p_type := Given EC, p_privateKey := Given (replicate 31 0 @ [43])\<rparr>) = Inr k
        \<and> jwk_kty k = Some EC \<and> jwk_crv k = Some p256
        \<and> get_xBits k = JsValue (BN_toArray (fst publicPoint43))
        \<and> get_yBits k = JsValue (BN_toArray (snd publicPoint43))
        \<and> get_publicBits k =
            Inr (JsValue (4 # BN_toArray (fst publicPoint43) @ BN_toArray (snd publicPoint43)))"
    by blast
  have rej: "set_publicBits (4 # BN_toArray (fst publicPoint43) @ BN_toArray (snd publicPoint43))
         (baseProperties noProperties) = Inl InvalidPublicKeyEncoding"
    by (simp add: set_publicBits_def lx ly)
  from h1 ex lx ly rej show ?thesis by (intro conjI)
qed

text \<open>
  \<^verbatim>\<open>Key({privateBits: [1], privateKey: [2]})\<close>: after the codecs and the translators
  the target \<open>privateBits\<close> holds \<^verbatim>\<open>[1]\<close>; the asserted alias \<open>privateKey\<close> then
  writes it, and the key that is returned holds \<^verbatim>\<open>[2]\<close>.
\<close>

theorem asserted_alias_overwrites_target:
  "\<exists>t k. run (aliasSteps (noProperties\<lparr>p_privateBits := Given [1], p_privateKey := Given [2]\<rparr>)
            @ codecSteps (noProperties\<lparr>p_privateBits := Given [1], p_privateKey := Given [2]\<rparr>)
            @ translatorSteps (\<lambda>bytes. Inl DerError)
                (noProperties\<lparr>p_privateBits := Given [1], p_privateKey := Given [2]\<rparr>))
          (baseProperties (noProperties\<lparr>p_privateBits := Given [1], p_privateKey := Given [2]\<rparr>))
        = Inr t
     \<and> get_privateBits t = JsValue [1]
     \<and> Key (\<lambda>bytes. Inl DerError) (\<lambda>crv bytes. Inl ProviderError)
          (noProperties\<lparr>p_privateBits := Given [1], p_privateKey := Given [2]\<rparr>) = Inr k
     \<and> get_privateBits k = JsValue [2]"
  by (simp add: Key_def step_defs noProperties_def baseProperties_def valueOf_def store_def
      set_privateKey_def set_privateBits_def get_privateBits_def completeEC_def)

text \<open>
  Claim C4, as amended. During construction, an asserted alias (\<open>publicKey\<close>,
  \<open>privateKey\<close>, \<open>keyPair\<close>) that \<^verbatim>\<open>properties\<close> gives a value for is written to
  its target (\<open>publicBits\<close>, \<open>privateBits\<close>, \<open>keyPairBits\<close>) whatever an earlier
  step has put there, and the target then reads as the value of the alias: the steps
  run in reverse order of priority, the later one wins. An asserted alias that is
  absent or undefined in \<^verbatim>\<open>properties\<close> writes nothing and leaves its target
  unchanged: when all three are absent the key is left as the earlier steps made it;
  when only one is given the steps are the setter of that one; with \<open>privateKey\<close>
  and \<open>keyPair\<close> absent the field \<open>d\<close> and \<open>privateBits\<close> stay as they were,
  also when \<open>publicKey\<close> is written; with \<open>publicKey\<close> and \<open>keyPair\<close> absent
  the fields \<open>x\<close>, \<open>y\<close>, \<open>kty\<close>, \<open>crv\<close> and \<open>publicBits\<close> stay as they
  were, also when \<open>privateKey\<close> is written. Here \<open>that\<close> is any state the
  earlier steps leave behind.
\<close>

theorem asserted_aliases_write_through:
  "(valueOf (p_publicKey p) = None \<and> valueOf (p_privateKey p) = None
      \<and> valueOf (p_keyPair p) = None \<longrightarrow>
      run (assertedSteps p) that = Inr that)
   \<and> (valueOf (p_publicKey p) = None \<and> p_privateKey p = Given b
      \<and> valueOf (p_keyPair p) = None \<longrightarrow>
      run (assertedSteps p) that = Inr (set_privateBits (Some b) that))
   \<and> (p_privateKey p = Given b \<and> valueOf (p_keyPair p) = None \<longrightarrow>
      (\<forall>that'. run (assertedSteps p) that = Inr that' \<longrightarrow> get_privateBits that' = JsValue b))
   \<and> (p_publicKey p = Given v \<and> valueOf (p_keyPair p) = None \<longrightarrow>
      (\<forall>that'. run (assertedSteps p) that = Inr that' \<longrightarrow>
         get_xBits that' = JsValue (slice v 1 ((length v - 1) div 2 + 1))
         \<and> get_yBits that' = JsValue (slice_from v ((length v - 1) div 2 + 1))))
   \<and> (p_keyPair p = Given pair \<longrightarrow>
      (\<forall>that'. run (assertedSteps p) that = Inr that' \<longrightarrow>
         get_privateBits that' = JsValue (privateKey pair)
         \<and> get_xBits that' =
             JsValue (slice (publicKey pair) 1 ((length (publicKey pair) - 1) div 2 + 1))
         \<and> get_yBits that' =
             JsValue (slice_from (publicKey pair) ((length (publicKey pair) - 1) div 2 + 1))))
   \<and> (p_publicKey p = Given v \<and> valueOf (p_privateKey p) = None
      \<and> valueOf (p_keyPair p) = None \<longrightarrow>
      run (assertedSteps p) that = set_publicBits v that)
   \<and> (p_publicKey p = Given v \<and> p_privateKey p = Given b
      \<and> valueOf (p_keyPair p) = None \<longrightarrow>
      run (assertedSteps p) that =
        bind (set_publicBits v that) (\<lambda>t. Inr (set_privateBits (Some b) t)))
   \<and> (valueOf (p_publicKey p) = None \<and> valueOf (p_privateKey p) = None
      \<and> p_keyPair p = Given pair \<longrightarrow>
      run (assertedSteps p) that = set_keyPairBits pair that)
   \<and> (valueOf (p_privateKey p) = None \<and> valueOf (p_keyPair p) = None \<longrightarrow>
      (\<forall>that'. run (assertedSteps p) that = Inr that' \<longrightarrow>
         jwk_d that' = jwk_d that \<and> get_privateBits that' = get_privateBits that))
   \<and> (valueOf (p_publicKey p) = None \<and> valueOf (p_keyPair p) = None \<longrightarrow>
      (\<forall>that'. run (assertedSteps p) that = Inr that' \<longrightarrow>
         jwk_x that' = jwk_x that \<and> jwk_y that' = jwk_y that
         \<and> jwk_kty that' = jwk_kty that \<and> jwk_crv that' = jwk_crv that
         \<and> get_xBits that' = get_xBits that \<and> get_yBits that' = get_yBits that
         \<and> get_publicBits that' = get_publicBits that))"
proof -
  have none: "run (assertedSteps p) that = Inr that"
    if "valueOf (p_publicKey p) = None" "valueOf (p_privateKey p) = None"
      "valueOf (p_keyPair p) = None"
    using that by (simp add: assertedSteps_def assign_not_given)
  have priv_only: "run (assertedSteps p) that = Inr (set_privateBits (Some b) that)"
    if "valueOf (p_publicKey p) = None" "p_privateKey p = Given b" "valueOf (p_keyPair p) = None"
    using that by (simp add: assertedSteps_def assign_not_given set_privateKey_def)
  have priv: "get_privateBits that' = JsValue b"
    if "p_privateKey p = Given b" "valueOf (p_keyPair p) = None"
      "run (assertedSteps p) that = Inr that'" for that'
  proof (cases "assign (p_publicKey p) set_publicKey that")
    case (Inl e)
    with that show ?thesis by (simp add: assertedSteps_def)
  next
    case (Inr t1)
    with that show ?thesis
      by (auto simp: assertedSteps_def assign_not_given set_privateKey_def set_privateBits_def
          get_privateBits_def)
  qed
  have pub: "get_xBits that' = JsValue (slice v 1 ((length v - 1) div 2 + 1))
         \<and> get_yBits that' = JsValue (slice_from v ((length v - 1) div 2 + 1))"
    if "p_publicKey p = Given v" "valueOf (p_keyPair p) = None"
      "run (assertedSteps p) that = Inr that'" for that'
  proof (cases "set_publicBits v that")
    case (Inl e)
    with that show ?thesis by (simp add: assertedSteps_def set_publicKey_def)
  next
    case (Inr t1)
    note r = set_publicBits_result [OF Inr]
    from that Inr have "assign (p_privateKey p) set_privateKey t1 = Inr that'"
      by (auto simp: assertedSteps_def set_publicKey_def assign_not_given bind_def
          split: sum.splits)
    then have "get_xBits that' = get_xBits t1 \<and> get_yBits that' = get_yBits t1"
      by (cases "p_privateKey p")
        (auto simp: set_privateKey_def set_privateBits_def get_xBits_def get_yBits_def)
    with r show ?thesis by simp
  qed
  have pair: "get_privateBits that' = JsValue (privateKey pair)
         \<and> get_xBits that' =
             JsValue (slice (publicKey pair) 1 ((length (publicKey pair) - 1) div 2 + 1))
         \<and> get_yBits that' =
             JsValue (slice_from (publicKey pair) ((length (publicKey pair) - 1) div 2 + 1))"
    if "p_keyPair p = Given pair" "run (assertedSteps p) that = Inr that'" for that'
  proof -
    from that obtain t2 where t2: "set_keyPair pair t2 = Inr that'"
      by (auto simp: assertedSteps_def bind_def split: sum.splits)
    then obtain t3 where t3: "set_publicBits (publicKey pair) t2 = Inr t3"
      and t': "that' = set_privateBits (Some (privateKey pair)) t3"
      by (auto simp: set_keyPair_def set_keyPairBits_def bind_def split: sum.splits)
    from set_publicBits_result [OF t3] t' show ?thesis
      by (simp add: set_privateBits_def get_privateBits_def get_xBits_def get_yBits_def)
  qed
  have pub_only: "run (assertedSteps p) that = set_publicBits v that"
    if "p_publicKey p = Given v" "valueOf (p_privateKey p) = None" "valueOf (p_keyPair p) = None"
    using that
    by (cases "set_publicBits v that")
      (simp_all add: assertedSteps_def assign_not_given set_publicKey_def)
  have pub_priv: "run (assertedSteps p) that =
        bind (set_publicBits v that) (\<lambda>t. Inr (set_privateBits (Some b) t))"
    if "p_publicKey p = Given v" "p_privateKey p = Given b" "valueOf (p_keyPair p) = None"
    using that
    by (cases "set_publicBits v that")
      (simp_all add: assertedSteps_def assign_not_given set_publicKey_def set_privateKey_def)
  have pair_only: "run (assertedSteps p) that = set_keyPairBits pair that"
    if "valueOf (p_publicKey p) = None" "valueOf (p_privateKey p) = None"
      "p_keyPair p = Given pair"
    using that
    by (cases "set_keyPairBits pair that")
      (simp_all add: assertedSteps_def assign_not_given set_keyPair_def)
  have frame_d: "jwk_d that' = jwk_d that \<and> get_privateBits that' = get_privateBits that"
    if "valueOf (p_privateKey p) = None" "valueOf (p_keyPair p) = None"
      "run (assertedSteps p) that = Inr that'" for that'
  proof -
    from that have r: "assign (p_publicKey p) set_publicKey that = Inr that'"
      by (cases "assign (p_publicKey p) set_publicKey that")
        (simp_all add: assertedSteps_def assign_not_given)
    have "jwk_d that' = jwk_d that"
    proof (cases "p_publicKey p")
      case (Given w)
      with r have "set_publicBits w that = Inr that'" by (simp add: set_publicKey_def)
      from set_publicBits_result [OF this] show ?thesis by simp
    qed (use r in simp_all)
    then show ?thesis by (simp add: get_privateBits_def)
  qed
  have frame_xy: "jwk_x that' = jwk_x that \<and> jwk_y that' = jwk_y that
         \<and> jwk_kty that' = jwk_kty that \<and> jwk_crv that' = jwk_crv that
         \<and> get_xBits that' = get_xBits that \<and> get_yBits that' = get_yBits that
         \<and> get_publicBits that' = get_publicBits that"
    if "valueOf (p_publicKey p) = None" "valueOf (p_keyPair p) = None"
      "run (assertedSteps p) that = Inr that'" for that'
  proof -
    from that have "assign (p_privateKey p) set_privateKey that = Inr that'"
      by (cases "assign (p_privateKey p) set_privateKey that")
        (simp_all add: assertedSteps_def assign_not_given)
    then have f: "jwk_x that' = jwk_x that \<and> jwk_y that' = jwk_y that
         \<and> jwk_kty that' = jwk_kty that \<and> jwk_crv that' = jwk_crv that"
      by (cases "p_privateKey p") (auto simp: set_privateKey_def set_privateBits_def)
    then have gx: "get_xBits that' = get_xBits that" and gy: "get_yBits that' = get_yBits that"
      by (simp_all add: get_xBits_def get_yBits_def)
    have "get_publicBits that' = get_publicBits that"
      unfolding get_publicBits_def gx gy by (rule refl)
    with f gx gy show ?thesis by simp
  qed
  show ?thesis
  proof (intro conjI impI allI)
  qed (use none priv_only pub_only pub_priv pair_only in blast,
      use none priv_only pub_only pub_priv pair_only in blast,
      use priv in blast, use pub in blast, use pub in blast,
      use pair in blast, use pair in blast, use pair in blast,
      use pub_only in blast, use pub_priv in blast, use pair_only in blast,
      use frame_d in blast, use frame_d in blast,
      use frame_xy in blast, use frame_xy in blast, use frame_xy in blast,
      use frame_xy in blast, use frame_xy in blast, use frame_xy in blast,
      use frame_xy in blast)
qed


theorem asserted_aliases_write_through_witness:
  "run (assertedSteps noProperties) (set_privateBits (Some [1]) (baseProperties noProperties))
     = Inr (set_privateBits (Some [1]) (baseProperties noProperties))
   \<and> run (assertedSteps (noProperties\<lparr>p_privateBits := Given [1], p_privateKey := Given [2]\<rparr>))
       (set_privateBits (Some [1]) (baseProperties noProperties))
     = Inr (set_privateBits (Some [2]) (set_privateBits (Some [1]) (baseProperties noProperties)))
   \<and> get_privateBits
       (set_privateBits (Some [2]) (set_privateBits (Some [1]) (baseProperties noProperties)))
     = JsValue [2]
   \<and> run (assertedSteps (noProperties\<lparr>p_publicKey := Given (4 # replicate 64 7)\<rparr>))
       (set_privateBits (Some [1]) (baseProperties noProperties))
     = set_publicBits (4 # replicate 64 7) (set_privateBits (Some [1]) (baseProperties noProperties))
   \<and> (\<exists>that'. run (assertedSteps (noProperties\<lparr>p_publicKey := Given (4 # replicate 64 7)\<rparr>))
         (set_privateBits (Some [1]) (baseProperties noProperties)) = Inr that'
       \<and> get_privateBits that' = JsValue [1]
       \<and> get_xBits that' = JsValue (replicate 32 7)
       \<and> get_yBits that' = JsValue (replicate 32 7))"
proof -
  let ?t = "set_privateBits (Some [1]) (baseProperties noProperties)"
  let ?pB = "noProperties\<lparr>p_privateBits := Given [1], p_privateKey := Given [2]\<rparr>"
  let ?pP = "noProperties\<lparr>p_publicKey := Given (4 # replicate 64 7)\<rparr>"
  note w0 = asserted_aliases_write_through [where p = noProperties and that = ?t]
  note w1 = asserted_aliases_write_through [where p = ?pB and b = "[2]" and that = ?t]
  note w2 = asserted_aliases_write_through [where p = ?pP and v = "4 # replicate 64 7" and that = ?t]
  have a: "run (assertedSteps noProperties) ?t = Inr ?t"
    using w0 [THEN conjunct1] by (simp add: noProperties_def valueOf_def)
  have b: "run (assertedSteps ?pB) ?t = Inr (set_privateBits (Some [2]) ?t)"
    using w1 [THEN conjunct2, THEN conjunct1] by (simp add: noProperties_def valueOf_def)
  have c: "get_privateBits (set_privateBits (Some [2]) ?t) = JsValue [2]"
    by (simp add: set_privateBits_def get_privateBits_def)
  have d: "run (assertedSteps ?pP) ?t = set_publicBits (4 # replicate 64 7) ?t"
    using w2 [THEN conjunct2, THEN conjunct2, THEN conjunct2, THEN conjunct2, THEN conjunct2,
        THEN conjunct1]
    by (simp add: noProperties_def valueOf_def)
  have "\<exists>that'. set_publicBits (4 # replicate 64 7) ?t = Inr that'"
    by (simp add: set_publicBits_def formatSpecifier_def inferCurve_cases set_privateBits_def
        empty_key_defs)
  then obtain that' where r: "run (assertedSteps ?pP) ?t = Inr that'"
    unfolding d by blast
  have xy: "get_xBits that' =
        JsValue (slice (4 # replicate 64 7) 1 ((length (4 # replicate 64 (7 :: byte)) - 1) div 2 + 1))
      \<and> get_yBits that' =
        JsValue (slice_from (4 # replicate 64 7) ((length (4 # replicate 64 (7 :: byte)) - 1) div 2 + 1))"
    using w2 [THEN conjunct2, THEN conjunct2, THEN conjunct2, THEN conjunct1] r
    by (simp add: noProperties_def valueOf_def)
  have fd: "get_privateBits that' = get_privateBits ?t"
    using w2 [THEN conjunct2, THEN conjunct2, THEN conjunct2, THEN conjunct2, THEN conjunct2,
        THEN conjunct2, THEN conjunct2, THEN conjunct2, THEN conjunct1] r
    by (simp add: noProperties_def valueOf_def)
  from xy fd have "get_privateBits that' = JsValue [1]
      \<and> get_xBits that' = JsValue (replicate 32 7) \<and> get_yBits that' = JsValue (replicate 32 7)"
    by (simp add: slice_def slice_from_def set_privateBits_def get_privateBits_def)
  with r have e: "\<exists>that'. run (assertedSteps ?pP) ?t = Inr that'
       \<and> get_privateBits that' = JsValue [1]
       \<and> get_xBits that' = JsValue (replicate 32 7)
       \<and> get_yBits that' = JsValue (replicate 32 7)"
    by blast
  from a b c d e show ?thesis by (intro conjI)
qed

text \<open>
  \<^verbatim>\<open>Key({type: "EC", privateKey: new Uint8Array(0)})\<close>: the field \<open>d\<close> is present
  and holds the empty string, the private key has length 0, and the factory returns a
  key with no curve instead of failing.
\<close>

theorem empty_private_key_no_inference:
  "\<exists>k. Key (\<lambda>bytes. Inl DerError) (\<lambda>crv bytes. Inl ProviderError)
          (noProperties\<lparr>p_type := Given EC, p_privateKey := Given []\<rparr>) = Inr k
     \<and> jwk_kty k = Some EC
     \<and> jwk_d k = Some []
     \<and> get_privateBits k = JsValue []
     \<and> jwk_crv k = None"
  by (simp add: Key_def step_defs noProperties_def baseProperties_def valueOf_def store_def
      set_type_def set_privateKey_def set_privateBits_def get_privateBits_def codec_set_def
      codec_get_def completeEC_def truthy_def get_xBits_def Base64_decode_def
      List.map_filter_simps)

text \<open>
  Claim C5, as amended. For every EC key under construction that has no curve when
  the last block of the factory runs (\<open>that\<close> is the key the earlier steps leave):
  if \<open>d\<close> is a non-empty string, the curve is inferred from the byte length of the
  private key; otherwise (\<open>d\<close> undefined or empty), if \<open>x\<close> is present, from the
  length of that coordinate; length 32 gives P-256, 48 gives P-384, 66 gives P-521,
  and any other length makes the construction fail with \<open>UnknownCurve\<close>. With
  \<open>d\<close> undefined or empty and \<open>x\<close> undefined nothing is inferred and the key is
  returned as it is.
\<close>

theorem curve_inference:
  assumes "run (aliasSteps p @ codecSteps p @ translatorSteps decode p @ assertedSteps p)
             (baseProperties p) = Inr that"
    and "jwk_kty that = Some EC" and "jwk_crv that = None"
  shows
    "(\<forall>s. jwk_d that = Some s \<and> s \<noteq> [] \<longrightarrow>
        (length (Base64_decode s) \<notin> {32, 48, 66} \<longrightarrow> Key decode ec p = Inl CannotInferCurve)
        \<and> (\<forall>k. Key decode ec p = Inr k \<longrightarrow>
             jwk_crv k = Some (if length (Base64_decode s) = 32 then p256
                               else if length (Base64_decode s) = 48 then p384 else p521))
        \<and> (length (Base64_decode s) \<in> {32, 48, 66} \<and> truthy (jwk_x that) \<and> truthy (jwk_y that) \<longrightarrow>
             Key decode ec p =
               Inr (that\<lparr>jwk_crv := Some (if length (Base64_decode s) = 32 then p256
                               else if length (Base64_decode s) = 48 then p384 else p521)\<rparr>)))
     \<and> (\<forall>s. \<not> truthy (jwk_d that) \<and> jwk_x that = Some s \<longrightarrow>
          Key decode ec p =
            (if length (Base64_decode s) = 32 then Inr (that\<lparr>jwk_crv := Some p256\<rparr>)
             else if length (Base64_decode s) = 48 then Inr (that\<lparr>jwk_crv := Some p384\<rparr>)
             else if length (Base64_decode s) = 66 then Inr (that\<lparr>jwk_crv := Some p521\<rparr>)
             else Inl CannotInferCurve))
     \<and> (\<not> truthy (jwk_d that) \<and> jwk_x that = None \<longrightarrow> Key decode ec p = Inr that)
     \<and> kind CannotInferCurve = UnknownCurve"
proof -
  have K: "Key decode ec p = completeEC ec that"
    by (simp add: Key_split assms(1))
  have d1: "completeEC ec that = Inl CannotInferCurve"
    if "jwk_d that = Some s" "s \<noteq> []" "length (Base64_decode s) \<notin> {32, 48, 66}" for s
    using that assms(2,3)
    by (simp add: completeEC_def truthy_def get_privateKey_def asserted_def get_privateBits_def
        codec_get_def inferCurve_cases)
  have d2: "jwk_crv k = Some (if length (Base64_decode s) = 32 then p256
                               else if length (Base64_decode s) = 48 then p384 else p521)"
    if "jwk_d that = Some s" "s \<noteq> []" "completeEC ec that = Inr k" for s k
    using that assms(2,3)
    by (auto simp: completeEC_def truthy_def get_privateKey_def asserted_def get_privateBits_def
        codec_get_def inferCurve_cases dest!: derive_keeps_curve split: if_splits)
  have d3: "completeEC ec that =
               Inr (that\<lparr>jwk_crv := Some (if length (Base64_decode s) = 32 then p256
                               else if length (Base64_decode s) = 48 then p384 else p521)\<rparr>)"
    if "jwk_d that = Some s" "s \<noteq> []" "length (Base64_decode s) \<in> {32, 48, 66}"
      "truthy (jwk_x that)" "truthy (jwk_y that)" for s
    using that assms(2,3)
    by (auto simp: completeEC_def truthy_def get_privateKey_def asserted_def get_privateBits_def
        codec_get_def inferCurve_cases)
  have x1: "completeEC ec that =
            (if length (Base64_decode s) = 32 then Inr (that\<lparr>jwk_crv := Some p256\<rparr>)
             else if length (Base64_decode s) = 48 then Inr (that\<lparr>jwk_crv := Some p384\<rparr>)
             else if length (Base64_decode s) = 66 then Inr (that\<lparr>jwk_crv := Some p521\<rparr>)
             else Inl CannotInferCurve)"
    if "\<not> truthy (jwk_d that)" "jwk_x that = Some s" for s
    using that assms(2,3)
    by (auto simp: completeEC_def get_xBits_def codec_get_def inferCurve_cases)
  have n1: "completeEC ec that = Inr that" if "\<not> truthy (jwk_d that)" "jwk_x that = None"
    using that assms(2,3)
    by (simp add: completeEC_def get_xBits_def codec_get_def)
  from d1 d2 d3 x1 n1 show ?thesis
    unfolding K by simp
qed

theorem curve_inference_witness:
  "Key (\<lambda>bytes. Inl DerError) (\<lambda>crv bytes. Inl ProviderError)
      (noProperties\<lparr>p_x := Given ''AQ'', p_y := Given ''AQ'', p_type := Given EC,
         p_privateKey := Given (replicate 32 1)\<rparr>)
     = Inr (set_curve (Some p256) (set_privateBits (Some (replicate 32 1)) (set_type (Some EC)
         (baseProperties (noProperties\<lparr>p_x := Given ''AQ'', p_y := Given ''AQ''\<rparr>)))))
   \<and> Key (\<lambda>bytes. Inl DerError) (\<lambda>crv bytes. Inl ProviderError)
      (noProperties\<lparr>p_type := Given EC, p_privateKey := Given [1, 2]\<rparr>)
     = Inl CannotInferCurve
   \<and> Key (\<lambda>bytes. Inl DerError) (\<lambda>crv bytes. Inl ProviderError)
      (noProperties\<lparr>p_type := Given EC, p_xBits := Given (replicate 48 2)\<rparr>)
     = Inr (set_curve (Some p384) (set_xBits (Some (replicate 48 2)) (set_type (Some EC)
         (baseProperties noProperties))))
   \<and> Key (\<lambda>bytes. Inl DerError) (\<lambda>crv bytes. Inl ProviderError)
      (noProperties\<lparr>p_type := Given EC, p_xBits := Given [1, 2]\<rparr>)
     = Inl CannotInferCurve"
proof -
  let ?dec = "\<lambda>bytes :: ByteArray. (Inl DerError :: error + DerNode)"
  let ?ec = "\<lambda>(crv :: CurveType) (bytes :: ByteArray). (Inl ProviderError :: error + nat \<times> nat)"
  let ?pA = "noProperties\<lparr>p_x := Given ''AQ'', p_y := Given ''AQ'', p_type := Given EC,
         p_privateKey := Given (replicate 32 1)\<rparr>"
  let ?tA = "set_privateBits (Some (replicate 32 1)) (set_type (Some EC)
         (baseProperties (noProperties\<lparr>p_x := Given ''AQ'', p_y := Given ''AQ''\<rparr>)))"
  let ?pB = "noProperties\<lparr>p_type := Given EC, p_privateKey := Given [1, 2]\<rparr>"
  let ?tB = "set_privateBits (Some [1, 2]) (set_type (Some EC) (baseProperties noProperties))"
  let ?pC = "noProperties\<lparr>p_type := Given EC, p_xBits := Given (replicate 48 2)\<rparr>"
  let ?tC = "set_xBits (Some (replicate 48 2)) (set_type (Some EC) (baseProperties noProperties))"
  let ?pD = "noProperties\<lparr>p_type := Given EC, p_xBits := Given [1, 2]\<rparr>"
  let ?tD = "set_xBits (Some [1, 2]) (set_type (Some EC) (baseProperties noProperties))"
  have rA: "run (aliasSteps ?pA @ codecSteps ?pA @ translatorSteps ?dec ?pA @ assertedSteps ?pA)
      (baseProperties ?pA) = Inr ?tA"
    by (simp add: step_defs noProperties_def store_def set_privateKey_def baseProperties_def)
  have rB: "run (aliasSteps ?pB @ codecSteps ?pB @ translatorSteps ?dec ?pB @ assertedSteps ?pB)
      (baseProperties ?pB) = Inr ?tB"
    by (simp add: step_defs noProperties_def store_def set_privateKey_def baseProperties_def)
  have rC: "run (aliasSteps ?pC @ codecSteps ?pC @ translatorSteps ?dec ?pC @ assertedSteps ?pC)
      (baseProperties ?pC) = Inr ?tC"
    by (simp add: step_defs noProperties_def store_def baseProperties_def)
  have rD: "run (aliasSteps ?pD @ codecSteps ?pD @ translatorSteps ?dec ?pD @ assertedSteps ?pD)
      (baseProperties ?pD) = Inr ?tD"
    by (simp add: step_defs noProperties_def store_def baseProperties_def)
  have kA: "jwk_kty ?tA = Some EC" and cA: "jwk_crv ?tA = None"
    and kB: "jwk_kty ?tB = Some EC" and cB: "jwk_crv ?tB = None"
    and kC: "jwk_kty ?tC = Some EC" and cC: "jwk_crv ?tC = None"
    and kD: "jwk_kty ?tD = Some EC" and cD: "jwk_crv ?tD = None"
    by (simp_all add: set_privateBits_def set_xBits_def set_type_def empty_key_defs)
  have A: "Key ?dec ?ec ?pA = Inr (set_curve (Some p256) ?tA)"
    using curve_inference [OF rA kA cA, of ?ec]
    by (simp add: set_privateBits_def set_type_def set_curve_def codec_set_def truthy_def
        empty_key_defs)
  have B: "Key ?dec ?ec ?pB = Inl CannotInferCurve"
    using curve_inference [OF rB kB cB, of ?ec]
    by (simp add: set_privateBits_def set_type_def codec_set_def empty_key_defs)
  have C: "Key ?dec ?ec ?pC = Inr (set_curve (Some p384) ?tC)"
    using curve_inference [OF rC kC cC, of ?ec]
    by (simp add: set_xBits_def set_type_def set_curve_def codec_set_def truthy_def
        empty_key_defs)
  have D: "Key ?dec ?ec ?pD = Inl CannotInferCurve"
    using curve_inference [OF rD kD cD, of ?ec]
    by (simp add: set_xBits_def set_type_def codec_set_def truthy_def empty_key_defs)
  from A B C D show ?thesis by (intro conjI)
qed

text \<open>
  The public point \<^verbatim>\<open>04 01 02\<close> has an odd length and the format byte of an
  uncompressed point, and the importer throws on a key with no curve: one byte is the
  length of no supported coordinate.
\<close>

theorem set_publicBits_uncompressed_rejected:
  "odd (length [4, 1, 2 :: byte]) \<and> [4, 1, 2 :: byte] ! 0 = 4
   \<and> set_publicBits [4, 1, 2] (baseProperties noProperties) = Inl CannotInferCurve"
  by (simp add: set_publicBits_def formatSpecifier_def inferCurve_def empty_key_defs)

text \<open>
  Claim C6, as amended. For every byte array given to the importer of raw public
  points: an even length fails with the message of a bad encoding (kind \<open>BadFormat\<close>);
  an odd length with first byte 2 or 3 fails as unsupported compression; an odd length
  with first byte 5 fails with the message of an illegal format specifier (kind
  \<open>BadFormat\<close>); an odd length with first byte 4 passes the check of the format and
  is then accepted exactly when the key already has a curve or the coordinate length
  is 32, 48 or 66, and fails with \<open>UnknownCurve\<close> otherwise.
\<close>

theorem set_publicBits_format_byte:
  "(even (length input) \<longrightarrow> set_publicBits input that = Inl InvalidPublicKeyEncoding)
   \<and> (odd (length input) \<and> (input ! 0 = 2 \<or> input ! 0 = 3) \<longrightarrow>
        set_publicBits input that = Inl UnsupportedPublicKeyCompression)
   \<and> (odd (length input) \<and> input ! 0 = 5 \<longrightarrow>
        set_publicBits input that = Inl IllegalPublicKeyFormatSpecifier)
   \<and> (odd (length input) \<and> input ! 0 = 4 \<longrightarrow>
        (if jwk_crv that \<noteq> None \<or> (length input - 1) div 2 \<in> {32, 48, 66}
         then \<exists>k. set_publicBits input that = Inr k
         else set_publicBits input that = Inl CannotInferCurve))
   \<and> kind InvalidPublicKeyEncoding = BadFormat
   \<and> kind UnsupportedPublicKeyCompression = UnsupportedCompression
   \<and> kind IllegalPublicKeyFormatSpecifier = BadFormat
   \<and> kind CannotInferCurve = UnknownCurve"
proof -
  have "set_publicBits input that = Inl InvalidPublicKeyEncoding" if "even (length input)"
    using that by (auto simp: set_publicBits_def)
  moreover have "set_publicBits input that = Inl UnsupportedPublicKeyCompression"
    if "odd (length input)" "input ! 0 = 2 \<or> input ! 0 = 3"
    using that by (auto simp: set_publicBits_def formatSpecifier_def odd_iff_mod_2_eq_one)
  moreover have "set_publicBits input that = Inl IllegalPublicKeyFormatSpecifier"
    if "odd (length input)" "input ! 0 = 5"
    using that by (auto simp: set_publicBits_def formatSpecifier_def odd_iff_mod_2_eq_one)
  moreover have "if jwk_crv that \<noteq> None \<or> (length input - 1) div 2 \<in> {32, 48, 66}
         then \<exists>k. set_publicBits input that = Inr k
         else set_publicBits input that = Inl CannotInferCurve"
    if "odd (length input)" "input ! 0 = 4"
    using that by (auto simp: set_publicBits_passed inferCurve_cases)
  ultimately show ?thesis by simp
qed

theorem set_publicBits_format_byte_witness:
  "set_publicBits [1, 2] (baseProperties noProperties) = Inl InvalidPublicKeyEncoding
   \<and> set_publicBits [2, 0, 0] (baseProperties noProperties) = Inl UnsupportedPublicKeyCompression
   \<and> set_publicBits [3, 0, 0] (baseProperties noProperties) = Inl UnsupportedPublicKeyCompression
   \<and> set_publicBits [5, 0, 0] (baseProperties noProperties) = Inl IllegalPublicKeyFormatSpecifier
   \<and> (\<exists>k. set_publicBits (4 # replicate 64 7) (baseProperties noProperties) = Inr k)
   \<and> set_publicBits [4, 0, 0] (baseProperties noProperties) = Inl CannotInferCurve"
  using set_publicBits_format_byte [of "[1, 2]" "baseProperties noProperties"]
    set_publicBits_format_byte [of "[2, 0, 0]" "baseProperties noProperties"]
    set_publicBits_format_byte [of "[3, 0, 0]" "baseProperties noProperties"]
    set_publicBits_format_byte [of "[5, 0, 0]" "baseProperties noProperties"]
    set_publicBits_format_byte [of "4 # replicate 64 7" "baseProperties noProperties"]
    set_publicBits_format_byte [of "[4, 0, 0]" "baseProperties noProperties"]
  by (simp add: empty_key_defs)

text \<open>
  The input \<^verbatim>\<open>00 01 02\<close> has an odd length and a first byte that is none of 2, 3, 4
  and 5, and the importer throws on a key with no curve.
\<close>

theorem set_publicBits_unknown_prefix_rejected:
  "odd (length [0, 1, 2 :: byte]) \<and> [0, 1, 2 :: byte] ! 0 \<notin> {2, 3, 4, 5}
   \<and> set_publicBits [0, 1, 2] (baseProperties noProperties) = Inl CannotInferCurve"
  by (simp add: set_publicBits_def formatSpecifier_def inferCurve_def empty_key_defs)

text \<open>
  Claim C7, as amended. For every byte array of odd length whose first byte is none of
  2, 3, 4 and 5, the importer does exactly what it does for the same bytes behind the
  format byte 4: the format byte is not validated. It succeeds when the key already
  has a curve or the coordinate length is 32, 48 or 66, and then the key type is EC
  and \<open>xBits\<close> and \<open>yBits\<close> are the two halves of the remainder; otherwise it
  fails with \<open>UnknownCurve\<close>.
\<close>

theorem set_publicBits_unchecked_prefix:
  assumes "odd (length input)" and "input ! 0 \<notin> {2, 3, 4, 5}"
  shows "set_publicBits input that = set_publicBits (4 # tl input) that
    \<and> (if jwk_crv that \<noteq> None \<or> (length input - 1) div 2 \<in> {32, 48, 66}
        then \<exists>k. set_publicBits input that = Inr k
               \<and> jwk_kty k = Some EC
               \<and> get_xBits k = JsValue (take ((length input - 1) div 2) (drop 1 input))
               \<and> get_yBits k = JsValue (drop ((length input - 1) div 2 + 1) input)
        else set_publicBits input that = Inl CannotInferCurve)"
proof -
  from assms(1) obtain b rest where input: "input = b # rest"
    by (cases input) auto
  have a: "input ! 0 \<notin> {2, 3, 5}" using assms(2) by auto
  have l: "odd (length (4 # tl input))" using assms(1) input by simp
  have eq: "set_publicBits input that = set_publicBits (4 # tl input) that"
    unfolding set_publicBits_passed [OF assms(1) a]
    using set_publicBits_passed [OF l, of that] input
    by (simp add: slice_def slice_from_def)
  show ?thesis
    unfolding eq [symmetric] set_publicBits_passed [OF assms(1) a]
    by (auto simp: eq inferCurve_cases set_xBits_def set_yBits_def set_type_def get_xBits_def
        get_yBits_def slice_def slice_from_def)
qed

theorem set_publicBits_unchecked_prefix_witness:
  "odd (length (0 # replicate 64 (7 :: byte))) \<and> (0 # replicate 64 (7 :: byte)) ! 0 \<notin> {2, 3, 4, 5}
   \<and> set_publicBits (0 # replicate 64 7) (baseProperties noProperties)
       = set_publicBits (4 # replicate 64 7) (baseProperties noProperties)
   \<and> (\<exists>k. set_publicBits (0 # replicate 64 7) (baseProperties noProperties) = Inr k
         \<and> jwk_kty k = Some EC
         \<and> get_xBits k = JsValue (replicate 32 7)
         \<and> get_yBits k = JsValue (replicate 32 7))"
proof -
  have h1: "odd (length (0 # replicate 64 (7 :: byte)))" by simp
  have h2: "(0 # replicate 64 (7 :: byte)) ! 0 \<notin> {2, 3, 4, 5}" by simp
  note w = set_publicBits_unchecked_prefix [OF h1 h2, of "baseProperties noProperties"]
  from w have eq: "set_publicBits (0 # replicate 64 7) (baseProperties noProperties)
       = set_publicBits (4 # replicate 64 7) (baseProperties noProperties)"
    by simp
  from conjunct2 [OF w] have ex: "\<exists>k. set_publicBits (0 # replicate 64 7) (baseProperties noProperties) = Inr k
         \<and> jwk_kty k = Some EC
         \<and> get_xBits k = JsValue (replicate 32 7)
         \<and> get_yBits k = JsValue (replicate 32 7)"
    by simp
  from h1 h2 eq ex show ?thesis by (intro conjI)
qed

text \<open>
  Claim C8. For every input of 65 bytes whose first byte is 4, the key constructed from
  it (by \<^verbatim>\<open>PublicKey(input)\<close>, or by \<^verbatim>\<open>Key({publicBits: input})\<close>) has the curve
  P-256, and its \<open>xBits\<close> and \<open>yBits\<close> are bytes 1 to 32 and bytes 33 to 64 of the
  input, 32 bytes each.
\<close>

theorem raw_public_point_p256:
  assumes "length input = 65" and "input ! 0 = 4"
  shows "(\<exists>k. PublicKey decode ec input noProperties = Inr k
            \<and> jwk_kty k = Some EC \<and> jwk_crv k = Some p256
            \<and> get_xBits k = JsValue (take 32 (drop 1 input))
            \<and> get_yBits k = JsValue (drop 33 input))
       \<and> (\<exists>k. Key decode ec (noProperties\<lparr>p_publicBits := Given input\<rparr>) = Inr k
            \<and> jwk_kty k = Some EC \<and> jwk_crv k = Some p256
            \<and> get_xBits k = JsValue (take 32 (drop 1 input))
            \<and> get_yBits k = JsValue (drop 33 input))
       \<and> length (take 32 (drop 1 input)) = 32 \<and> length (drop 33 input) = 32"
proof -
  have o: "odd (length input)" and f: "input ! 0 \<notin> {2, 3, 5}"
    using assms by simp_all
  show ?thesis
    using assms
    by (simp add: PublicKey_def Key_def spread_def step_defs noProperties_def baseProperties_def
        valueOf_def store_def set_publicKey_def set_publicBits_passed [OF o f] inferCurve_cases
        set_type_def set_xBits_def set_yBits_def completeEC_def truthy_def get_xBits_def
        get_yBits_def slice_def slice_from_def)
qed

theorem raw_public_point_p256_witness:
  "length (4 # replicate 64 (7 :: byte)) = 65 \<and> (4 # replicate 64 (7 :: byte)) ! 0 = 4
   \<and> (\<exists>k. PublicKey (\<lambda>bytes. Inl DerError) (\<lambda>crv bytes. Inl ProviderError)
            (4 # replicate 64 7) noProperties = Inr k
         \<and> jwk_kty k = Some EC \<and> jwk_crv k = Some p256
         \<and> get_xBits k = JsValue (replicate 32 7)
         \<and> get_yBits k = JsValue (replicate 32 7))"
proof -
  have h1: "length (4 # replicate 64 (7 :: byte)) = 65" by simp
  have h2: "(4 # replicate 64 (7 :: byte)) ! 0 = 4" by simp
  show ?thesis
    using raw_public_point_p256 [OF h1 h2, of "\<lambda>bytes. Inl DerError" "\<lambda>crv bytes. Inl ProviderError"] h1 h2
    by simp
qed

text \<open>
  Claim C9. Writing bytes \<open>b\<close> to a binary alias (\<open>privateBits\<close>, \<open>xBits\<close>,
  \<open>yBits\<close>) stores the Base64 encoding of \<open>b\<close> in the base field (\<open>d\<close>, \<open>x\<close>,
  \<open>y\<close>); the text has characters of the URL-safe alphabet only and no padding;
  reading the alias back gives \<open>b\<close>. Conversely, reading the alias of a base field
  that holds the encoding of \<open>b\<close> gives \<open>b\<close>, and for any string in the base
  field the alias reads the bytes the string decodes to.
\<close>

theorem binary_alias_round_trip:
  "jwk_d (set_privateBits (Some b) that) = Some (Base64_encode b)
   \<and> jwk_x (set_xBits (Some b) that) = Some (Base64_encode b)
   \<and> jwk_y (set_yBits (Some b) that) = Some (Base64_encode b)
   \<and> filter (\<lambda>c. base64url_value c = None) (Base64_encode b) = []
   \<and> CHR ''='' \<notin> set (Base64_encode b)
   \<and> get_privateBits (set_privateBits (Some b) that) = JsValue b
   \<and> get_xBits (set_xBits (Some b) that) = JsValue b
   \<and> get_yBits (set_yBits (Some b) that) = JsValue b
   \<and> get_privateBits (that\<lparr>jwk_d := Some (Base64_encode b)\<rparr>) = JsValue b
   \<and> get_xBits (that\<lparr>jwk_x := Some (Base64_encode b)\<rparr>) = JsValue b
   \<and> get_yBits (that\<lparr>jwk_y := Some (Base64_encode b)\<rparr>) = JsValue b
   \<and> get_privateBits (that\<lparr>jwk_d := Some s\<rparr>) = JsValue (Base64_decode s)
   \<and> get_xBits (that\<lparr>jwk_x := Some s\<rparr>) = JsValue (Base64_decode s)
   \<and> get_yBits (that\<lparr>jwk_y := Some s\<rparr>) = JsValue (Base64_decode s)"
  by (simp add: set_privateBits_def set_xBits_def set_yBits_def get_privateBits_def get_xBits_def
      get_yBits_def Base64_encode_alphabet Base64_encode_unpadded codec_get_def codec_set_def)

text \<open>
  Claim C10. The claim: reading \<open>publicKey\<close>, \<open>privateKey\<close> or \<open>keyPair\<close> fails
  with \<open>MissingField\<close> when the binary alias under it is undefined, and reading
  \<open>publicKey\<close> of \<^verbatim>\<open>Key({})\<close> does so. The code at \<^verbatim>\<open>Key({})\<close>: reading
  \<open>publicKey\<close> or \<open>keyPair\<close> throws a \<open>TypeError\<close>, and reading \<open>privateKey\<close>
  returns \<^verbatim>\<open>false\<close> with no error. An asserted getter does throw its error for a
  target that reads as \<^verbatim>\<open>undefined\<close>, but the codec getters answer \<^verbatim>\<open>false\<close> for an
  undefined base field, so no binary alias ever resolves to \<^verbatim>\<open>undefined\<close>, and the
  asserted getters never throw their own error.
\<close>

theorem asserted_read_of_empty_key:
  "Key decode ec noProperties = Inr (baseProperties noProperties)
   \<and> get_publicKey (baseProperties noProperties) = Inl TypeError
   \<and> get_privateKey (baseProperties noProperties) = Inr JsFalse
   \<and> get_keyPair (baseProperties noProperties) = Inl TypeError
   \<and> kind TypeError \<noteq> MissingField
   \<and> (\<forall>target. asserted target (JsUndefined :: ByteArray js) = Inl (KeyFieldNotDefined target))
   \<and> (\<forall>target. kind (KeyFieldNotDefined target) = MissingField)
   \<and> (\<forall>that. get_privateBits that \<noteq> JsUndefined)
   \<and> (\<forall>that. get_publicBits that \<noteq> Inr JsUndefined)
   \<and> (\<forall>that. get_keyPairBits that \<noteq> Inr JsUndefined)
   \<and> (\<forall>that. get_privateKey that = Inr (get_privateBits that))
   \<and> (\<forall>that e. get_publicKey that = Inl e \<longleftrightarrow> (e = TypeError \<and> (jwk_x that = None \<or> jwk_y that = None)))"
proof -
  have 1: "Key decode ec noProperties = Inr (baseProperties noProperties)"
    by (simp add: Key_def step_defs noProperties_def completeEC_def baseProperties_def valueOf_def)
  have 2: "get_publicKey (baseProperties noProperties) = Inl TypeError"
    by (simp add: get_publicKey_def get_publicBits_def get_xBits_def get_yBits_def codec_get_def
        empty_key_defs)
  have 3: "get_privateKey (baseProperties noProperties) = Inr JsFalse"
    by (simp add: get_privateKey_def asserted_def get_privateBits_def codec_get_def empty_key_defs)
  have 4: "get_keyPair (baseProperties noProperties) = Inl TypeError"
    by (simp add: get_keyPair_def get_keyPairBits_def get_publicBits_def get_xBits_def
        get_yBits_def codec_get_def empty_key_defs)
  have 5: "get_privateBits that \<noteq> JsUndefined" for that
    by (simp add: get_privateBits_def)
  have 6: "get_publicBits that \<noteq> Inr JsUndefined" for that
    by (simp add: get_publicBits_def get_xBits_def get_yBits_def split: js.splits)
  have 7: "get_keyPairBits that \<noteq> Inr JsUndefined" for that
    by (simp add: get_keyPairBits_def get_publicBits_def get_xBits_def get_yBits_def
        get_privateBits_def Let_def split: js.splits)
  have 8: "get_privateKey that = Inr (get_privateBits that)" for that
    by (simp add: get_privateKey_def asserted_def get_privateBits_def)
  have 9: "get_publicKey that = Inl e \<longleftrightarrow> (e = TypeError \<and> (jwk_x that = None \<or> jwk_y that = None))"
    for that e
    by (auto simp: get_publicKey_def get_publicBits_def get_xBits_def get_yBits_def codec_get_def
        asserted_def split: option.splits)
  have 10: "asserted target (JsUndefined :: ByteArray js) = Inl (KeyFieldNotDefined target)"
    for target
    by (simp add: asserted_def)
  show ?thesis
    using 1 2 3 4 5 6 7 8 9 10 by simp
qed

end
